theory Spec2Isabelle
  imports Complex_Main
begin

section \<open>JavaScript numbers\<close>

text \<open>
  The program computes with JavaScript numbers. A finite number is modelled by the real
  it denotes (no rounding, no overflow); the three values that are not finite are kept,
  because a division by zero does not raise in JavaScript: it yields an infinity or NaN.
  Zero is the positive zero throughout. This is the exact reading of the arithmetic; the
  binary64 reading, with the rounding of every operation, follows in its own section.
\<close>

datatype jsnum = Num real | PosInf | NegInf | NaN

definition signed_inf :: "bool \<Rightarrow> jsnum" where
  "signed_inf positive = (if positive then PosInf else NegInf)"

instantiation jsnum :: "{uminus, plus, times, inverse, ord}"
begin

fun uminus_jsnum :: "jsnum \<Rightarrow> jsnum" where
  "uminus_jsnum (Num x) = Num (- x)"
| "uminus_jsnum PosInf = NegInf"
| "uminus_jsnum NegInf = PosInf"
| "uminus_jsnum NaN = NaN"

fun plus_jsnum :: "jsnum \<Rightarrow> jsnum \<Rightarrow> jsnum" where
  "plus_jsnum (Num x) (Num y) = Num (x + y)"
| "plus_jsnum (Num x) PosInf = PosInf"
| "plus_jsnum (Num x) NegInf = NegInf"
| "plus_jsnum PosInf (Num y) = PosInf"
| "plus_jsnum NegInf (Num y) = NegInf"
| "plus_jsnum PosInf PosInf = PosInf"
| "plus_jsnum NegInf NegInf = NegInf"
| "plus_jsnum PosInf NegInf = NaN"
| "plus_jsnum NegInf PosInf = NaN"
| "plus_jsnum NaN b = NaN"
| "plus_jsnum a NaN = NaN"

fun times_jsnum :: "jsnum \<Rightarrow> jsnum \<Rightarrow> jsnum" where
  "times_jsnum (Num x) (Num y) = Num (x * y)"
| "times_jsnum (Num x) PosInf = (if x = 0 then NaN else signed_inf (0 < x))"
| "times_jsnum (Num x) NegInf = (if x = 0 then NaN else signed_inf (x < 0))"
| "times_jsnum PosInf (Num y) = (if y = 0 then NaN else signed_inf (0 < y))"
| "times_jsnum NegInf (Num y) = (if y = 0 then NaN else signed_inf (y < 0))"
| "times_jsnum PosInf PosInf = PosInf"
| "times_jsnum NegInf NegInf = PosInf"
| "times_jsnum PosInf NegInf = NegInf"
| "times_jsnum NegInf PosInf = NegInf"
| "times_jsnum NaN b = NaN"
| "times_jsnum a NaN = NaN"

fun divide_jsnum :: "jsnum \<Rightarrow> jsnum \<Rightarrow> jsnum" where
  "divide_jsnum (Num x) (Num y) =
     (if y \<noteq> 0 then Num (x / y) else if x = 0 then NaN else signed_inf (0 < x))"
| "divide_jsnum (Num x) PosInf = Num 0"
| "divide_jsnum (Num x) NegInf = Num 0"
| "divide_jsnum PosInf (Num y) = signed_inf (0 \<le> y)"
| "divide_jsnum NegInf (Num y) = signed_inf (y < 0)"
| "divide_jsnum PosInf PosInf = NaN"
| "divide_jsnum NegInf NegInf = NaN"
| "divide_jsnum PosInf NegInf = NaN"
| "divide_jsnum NegInf PosInf = NaN"
| "divide_jsnum NaN b = NaN"
| "divide_jsnum a NaN = NaN"

fun inverse_jsnum :: "jsnum \<Rightarrow> jsnum" where
  "inverse_jsnum (Num y) = (if y \<noteq> 0 then Num (1 / y) else PosInf)"
| "inverse_jsnum PosInf = Num 0"
| "inverse_jsnum NegInf = Num 0"
| "inverse_jsnum NaN = NaN"

fun less_jsnum :: "jsnum \<Rightarrow> jsnum \<Rightarrow> bool" where
  "less_jsnum (Num x) (Num y) = (x < y)"
| "less_jsnum (Num x) PosInf = True"
| "less_jsnum (Num x) NegInf = False"
| "less_jsnum PosInf b = False"
| "less_jsnum NegInf (Num y) = True"
| "less_jsnum NegInf PosInf = True"
| "less_jsnum NegInf NegInf = False"
| "less_jsnum NaN b = False"
| "less_jsnum a NaN = False"

fun less_eq_jsnum :: "jsnum \<Rightarrow> jsnum \<Rightarrow> bool" where
  "less_eq_jsnum (Num x) (Num y) = (x \<le> y)"
| "less_eq_jsnum (Num x) PosInf = True"
| "less_eq_jsnum (Num x) NegInf = False"
| "less_eq_jsnum PosInf (Num y) = False"
| "less_eq_jsnum PosInf PosInf = True"
| "less_eq_jsnum PosInf NegInf = False"
| "less_eq_jsnum NegInf (Num y) = True"
| "less_eq_jsnum NegInf PosInf = True"
| "less_eq_jsnum NegInf NegInf = True"
| "less_eq_jsnum NaN b = False"
| "less_eq_jsnum a NaN = False"

instance ..

end

instantiation jsnum :: minus
begin

definition minus_jsnum :: "jsnum \<Rightarrow> jsnum \<Rightarrow> jsnum" where
  "minus_jsnum a b = a + (- b)"

instance ..

end

text \<open>\<^verbatim>\<open>Math.exp\<close> and \<^verbatim>\<open>Math.round\<close> (the integer nearest to the argument, a tie
  going up).\<close>

fun Math_exp :: "jsnum \<Rightarrow> jsnum" where
  "Math_exp (Num x) = Num (exp x)"
| "Math_exp PosInf = PosInf"
| "Math_exp NegInf = Num 0"
| "Math_exp NaN = NaN"

fun Math_round :: "jsnum \<Rightarrow> jsnum" where
  "Math_round (Num x) = Num (of_int \<lfloor>x + 1 / 2\<rfloor>)"
| "Math_round PosInf = PosInf"
| "Math_round NegInf = NegInf"
| "Math_round NaN = NaN"

section \<open>Text made from numbers\<close>

text \<open>
  The text of a number is kept by what determines it. \<open>Decimal2 neg n\<close> is the text
  \<^verbatim>\<open>toFixed(2)\<close> gives below \<open>10^21\<close>: the digits of \<open>n\<close> with a point before
  the last two, after a minus sign when \<open>neg\<close> holds. \<open>ToString v\<close> is the text of
  the number \<open>v\<close> itself, as a template literal writes it and as \<^verbatim>\<open>toFixed\<close> gives
  for a value that is not finite or from \<open>10^21\<close> on.
\<close>

datatype numtext = Decimal2 bool nat | ToString jsnum

fun toFixed2 :: "jsnum \<Rightarrow> numtext" where
  "toFixed2 (Num x) =
     (if 10 ^ 21 \<le> \<bar>x\<bar> then ToString (Num x)
      else Decimal2 (x < 0) (nat \<lfloor>\<bar>x\<bar> * 100 + 1 / 2\<rfloor>))"
| "toFixed2 PosInf = ToString PosInf"
| "toFixed2 NegInf = ToString NegInf"
| "toFixed2 NaN = ToString NaN"

text \<open>A template literal is the list of its pieces: fixed text and interpolated
  numbers. The empty string is the empty list. Fixed text is given by its UTF-8 bytes.\<close>

datatype piece = Lit string | Val jsnum

type_synonym template = "piece list"

fun render_piece :: "(jsnum \<Rightarrow> string) \<Rightarrow> piece \<Rightarrow> string" where
  "render_piece fmt (Lit s) = s"
| "render_piece fmt (Val v) = fmt v"

definition render :: "(jsnum \<Rightarrow> string) \<Rightarrow> template \<Rightarrow> string" where
  "render fmt ps = concat (map (render_piece fmt) ps)"

section \<open>Data\<close>

datatype ageUnit = Days | Months | Years

datatype antibiotic =
  Vancomycin_intermittent | Vancomycin_continuous | Gentamicin | Amikacin | Tobramycin

datatype levelType = Peak | Trough | Random

text \<open>\<open>Error msg\<close> is \<^verbatim>\<open>throw new Error(msg)\<close>; \<open>TypeError\<close> is what the engine
  throws when a property of \<^verbatim>\<open>undefined\<close> is read; \<open>RangeError\<close> is what it throws
  when an array is asked for with a length above \<open>2^32 - 1\<close>.\<close>

datatype error = Error string | TypeError | RangeError

record ranges =
  peak :: "(jsnum \<times> jsnum) option"
  trough :: "(jsnum \<times> jsnum) option"
  steady :: "(jsnum \<times> jsnum) option"
  auc_band :: "(jsnum \<times> jsnum) option"

fun therapeuticRanges :: "antibiotic \<Rightarrow> ranges" where
  "therapeuticRanges Vancomycin_intermittent =
     \<lparr>peak = Some (Num 25, Num 40), trough = Some (Num 10, Num 20), steady = None,
      auc_band = Some (Num 400, Num 600)\<rparr>"
| "therapeuticRanges Vancomycin_continuous =
     \<lparr>peak = None, trough = None, steady = Some (Num 20, Num 25),
      auc_band = Some (Num 400, Num 600)\<rparr>"
| "therapeuticRanges Gentamicin =
     \<lparr>peak = Some (Num 5, Num 10), trough = Some (Num 0, Num 2), steady = None,
      auc_band = None\<rparr>"
| "therapeuticRanges Amikacin =
     \<lparr>peak = Some (Num 20, Num 30), trough = Some (Num 0, Num 5), steady = None,
      auc_band = None\<rparr>"
| "therapeuticRanges Tobramycin =
     \<lparr>peak = Some (Num 5, Num 10), trough = Some (Num 0, Num 2), steady = None,
      auc_band = None\<rparr>"

section \<open>calculateClearance\<close>

definition msg_clearance :: string where
  "msg_clearance = ''Peso e creatinina devem ser maiores que 0.''"

text \<open>The arguments are finite numbers. Both divisions come after the guard, with a
  positive creatinine, so they stay finite.\<close>

definition calculateClearance :: "real \<Rightarrow> real \<Rightarrow> ageUnit \<Rightarrow> real \<Rightarrow> error + real" where
  "calculateClearance weight ageValue ageUnit creatinine =
     (if weight \<le> 0 \<or> creatinine \<le> 0 then Inl (Error msg_clearance)
      else
        let ageInDays = (if ageUnit = Days then ageValue
                         else if ageUnit = Months then ageValue * 30.42
                         else ageValue * 365.25);
            crCl =
              (if ageInDays \<le> 28 \<or> ageUnit = Months \<or> (ageUnit = Years \<and> ageValue < 18)
               then
                 let k = (if ageInDays \<le> 7 then 0.33
                          else if ageInDays \<le> 28 then 0.45
                          else if ageUnit = Months then 0.55
                          else 0.413);
                     height = 50 + ageValue * (if ageUnit = Years then 12
                                               else if ageUnit = Months then 1
                                               else 0.1)
                 in (k * height) / creatinine
               else
                 let ageYears = (if ageUnit = Years then ageValue
                                 else if ageUnit = Months then ageValue / 12
                                 else ageValue / 365.25)
                 in ((140 - ageYears) * weight) / (72 * creatinine))
        in Inr (max 0 crCl))"

section \<open>simulatePK\<close>

definition msg_dose :: string where
  "msg_dose = ''Dose e intervalo devem ser maiores que 0.''"

text \<open>The local variables the \<^verbatim>\<open>switch\<close> assigns. \<open>t1_2_v\<close> is \<open>None\<close> while
  the variable is still \<^verbatim>\<open>undefined\<close>.\<close>

record pkvars =
  Vd :: jsnum
  Ke :: jsnum
  t1_2_v :: "jsnum option"
  infusionTime :: jsnum
  Cmax_v :: jsnum
  Cmin_v :: jsnum
  auc_v :: jsnum

text \<open>The body shared, word for word, by the cases \<^verbatim>\<open>vancomycin_intermittent\<close>,
  \<^verbatim>\<open>gentamicin\<close>/\<^verbatim>\<open>tobramycin\<close> and \<^verbatim>\<open>amikacin\<close>, which differ in the four
  constants only.\<close>

definition intermittent_case ::
  "jsnum \<Rightarrow> jsnum \<Rightarrow> jsnum \<Rightarrow> jsnum \<Rightarrow> real \<Rightarrow> real \<Rightarrow> real \<Rightarrow> jsnum \<Rightarrow> pkvars" where
  "intermittent_case vd slope icpt tinf dose interval weight crCl =
     (let Vd = vd;
          Ke = crCl * slope + icpt;
          t1_2 = Num 0.693 / Ke;
          infusionTime = tinf;
          Cmax = (Num dose / Num weight) / (Vd * (Num 1 - Math_exp ((- Ke) * infusionTime)));
          Cmin = Cmax * Math_exp ((- Ke) * (Num interval - infusionTime));
          auc = (Num dose / Num weight / Num interval) / (Ke * Vd) * Num 24
      in \<lparr>Vd = Vd, Ke = Ke, t1_2_v = Some t1_2, infusionTime = infusionTime,
          Cmax_v = Cmax, Cmin_v = Cmin, auc_v = auc\<rparr>)"

definition pk_switch :: "antibiotic \<Rightarrow> real \<Rightarrow> real \<Rightarrow> real \<Rightarrow> real \<Rightarrow> pkvars" where
  "pk_switch antibiotic dose interval weight clearance =
     (let crCl = (Num clearance / Num 1000) * Num 60 / Num weight
      in case antibiotic of
           Vancomycin_intermittent \<Rightarrow>
             intermittent_case (Num 0.7) (Num 0.00083) (Num 0.0044) (Num 1)
               dose interval weight crCl
         | Vancomycin_continuous \<Rightarrow>
             (let Vd = Num 0.7;
                  Ke = crCl * Num 0.00083 + Num 0.0044;
                  infusionTime = Num 24;
                  auc = (Num dose / Num weight / Num 24) / (Ke * Vd) * Num 24;
                  Cmax = auc / Num 24;
                  Cmin = Cmax
              in \<lparr>Vd = Vd, Ke = Ke, t1_2_v = None, infusionTime = infusionTime,
                  Cmax_v = Cmax, Cmin_v = Cmin, auc_v = auc\<rparr>)
         | Gentamicin \<Rightarrow>
             intermittent_case (Num 0.25) (Num 0.0029) (Num 0.01) (Num 0.5)
               dose interval weight crCl
         | Tobramycin \<Rightarrow>
             intermittent_case (Num 0.25) (Num 0.0029) (Num 0.01) (Num 0.5)
               dose interval weight crCl
         | Amikacin \<Rightarrow>
             intermittent_case (Num 0.25) (Num 0.0029) (Num 0.01) (Num 0.5)
               dose interval weight crCl)"

text \<open>The curve: \<^verbatim>\<open>Array.from({length: Math.ceil(interval * 2)}, (_, i) => i / 2)\<close> and
  the map over it. Arrays are lists of any length.\<close>

definition curve_times :: "real \<Rightarrow> jsnum list" where
  "curve_times interval = map (\<lambda>i. Num (real i) / Num 2) [0 ..< nat \<lceil>interval * 2\<rceil>]"

definition curve_point :: "pkvars \<Rightarrow> real \<Rightarrow> real \<Rightarrow> jsnum \<Rightarrow> jsnum" where
  "curve_point v dose weight t =
     (if t \<le> infusionTime v
      then (Num dose / Num weight) / (Vd v * (Num 1 - Math_exp ((- Ke v) * t)))
      else Cmax_v v * Math_exp ((- Ke v) * (t - infusionTime v)))"

text \<open>Status texts; the last one is \<^verbatim>\<open>Fora da faixa est\<close>, a-acute, \<^verbatim>\<open>vel\<close>.\<close>

definition Insuficiente :: string where "Insuficiente = ''Insuficiente''"
definition Excessiva :: string where "Excessiva = ''Excessiva''"
definition Adequada :: string where "Adequada = ''Adequada''"
definition Fora_da_faixa :: string where
  "Fora_da_faixa = ''Fora da faixa est'' @ [CHR 0xC3, CHR 0xA1] @ ''vel''"

definition dose_or_interval :: "string \<Rightarrow> jsnum \<Rightarrow> string \<Rightarrow> jsnum \<Rightarrow> template" where
  "dose_or_interval s1 d s2 i = [Lit s1, Val d, Lit s2, Val i, Lit '' h'']"

definition increase_text :: "jsnum \<Rightarrow> jsnum \<Rightarrow> template" where
  "increase_text d i =
     dose_or_interval ''Aumentar dose para '' d '' mg ou reduzir intervalo para '' i"

definition reduce_text :: "jsnum \<Rightarrow> jsnum \<Rightarrow> template" where
  "reduce_text d i =
     dose_or_interval ''Reduzir dose para '' d '' mg ou aumentar intervalo para '' i"

definition daily_increase_text :: "jsnum \<Rightarrow> template" where
  "daily_increase_text d =
     [Lit (''Aumentar dose di'' @ [CHR 0xC3, CHR 0xA1] @ ''ria para ''), Val d,
      Lit '' mg/dia'']"

definition daily_reduce_text :: "jsnum \<Rightarrow> template" where
  "daily_reduce_text d =
     [Lit (''Reduzir dose di'' @ [CHR 0xC3, CHR 0xA1] @ ''ria para ''), Val d,
      Lit '' mg/dia'']"

definition steady_text :: "jsnum \<Rightarrow> template" where
  "steady_text d =
     [Lit ''Ajustar dose para '', Val d,
      Lit ('' mg/dia para atingir 20'' @ [CHR 0xE2, CHR 0x80, CHR 0x93] @ ''25 ''
           @ [CHR 0xC2, CHR 0xB5] @ ''g/mL'')]"

text \<open>The block "Evaluate dosing". Reading an index of a range the table does not
  hold would throw.\<close>

definition evaluate_dosing ::
  "antibiotic \<Rightarrow> pkvars \<Rightarrow> real \<Rightarrow> real \<Rightarrow> real \<Rightarrow> error + string \<times> template" where
  "evaluate_dosing antibiotic v dose interval weight =
     (let Cmax = Cmax_v v; Cmin = Cmin_v v; auc = auc_v v in
      if antibiotic = Vancomycin_continuous then
        (if auc < Num 400 then
           Inr (Insuficiente, daily_increase_text (Math_round (Num dose * (Num 400 / auc))))
         else if Num 600 < auc then
           Inr (Excessiva, daily_reduce_text (Math_round (Num dose * (Num 600 / auc))))
         else if Cmax < Num 20 \<or> Num 25 < Cmax then
           Inr (Fora_da_faixa,
                steady_text (Math_round (Num 20 * Vd v * Ke v * Num weight * Num 24)))
         else Inr (Adequada, []))
      else
        let targetPeak = peak (therapeuticRanges antibiotic);
            targetTrough = trough (therapeuticRanges antibiotic)
        in if antibiotic = Vancomycin_intermittent then
             (if auc < Num 400 \<or> Cmin < Num 10 then
                Inr (Insuficiente,
                     increase_text (Math_round (Num dose * (Num 400 / auc)))
                                   (Math_round (Num interval * Num 0.8)))
              else if Num 600 < auc \<or> Num 20 < Cmin then
                Inr (Excessiva,
                     reduce_text (Math_round (Num dose * (Num 600 / auc)))
                                 (Math_round (Num interval * Num 1.2)))
              else Inr (Adequada, []))
           else
             (case (targetPeak, targetTrough) of
                (Some (peak0, peak1), Some (trough0, trough1)) \<Rightarrow>
                  (if Cmax < peak0 \<or> Cmin < trough0 then
                     Inr (Insuficiente,
                          increase_text (Math_round (Num dose * (peak1 / Cmax)))
                                        (Math_round (Num interval * Num 0.8)))
                   else if peak1 < Cmax \<or> trough1 < Cmin then
                     Inr (Excessiva,
                          reduce_text (Math_round (Num dose * (peak0 / Cmax)))
                                      (Math_round (Num interval * Num 1.2)))
                   else Inr (Adequada, []))
              | _ \<Rightarrow> Inl TypeError))"

text \<open>The block "Adjust for measured level". \<open>None\<close> is \<^verbatim>\<open>null\<close> or an argument left
  out; a level is truthy when it is a number other than zero. With \<^verbatim>\<open>levelType\<close>
  \<^verbatim>\<open>random\<close> and \<^verbatim>\<open>randomTime\<close> null, the test \<^verbatim>\<open>randomTime >= 0\<close> holds (null
  counts as 0) and \<^verbatim>\<open>measuredTime\<close> is set to null again.\<close>

definition measuredTime ::
  "pkvars \<Rightarrow> real \<Rightarrow> real option \<Rightarrow> levelType option \<Rightarrow> real option \<Rightarrow> jsnum option" where
  "measuredTime v interval level levelType randomTime =
     (case (level, levelType) of
        (Some l, Some ty) \<Rightarrow>
          (if l = 0 then None
           else case ty of
                  Peak \<Rightarrow> Some (infusionTime v)
                | Trough \<Rightarrow> Some (Num interval - Num 0.1)
                | Random \<Rightarrow>
                    (case randomTime of
                       None \<Rightarrow> None
                     | Some rt \<Rightarrow> if 0 \<le> rt then Some (Num rt) else None))
      | _ \<Rightarrow> None)"

record pkresult =
  timePoints :: "jsnum list"
  concentrations :: "jsnum list"
  Cmax :: numtext
  Cmin :: numtext
  auc :: numtext
  t1_2 :: numtext
  status :: string
  suggestion :: template

definition simulatePK ::
  "antibiotic \<Rightarrow> real \<Rightarrow> real \<Rightarrow> real \<Rightarrow> real \<Rightarrow> real option \<Rightarrow> levelType option \<Rightarrow> real option
   \<Rightarrow> error + pkresult" where
  "simulatePK antibiotic dose interval weight crCl level levelType randomTime =
     (if dose \<le> 0 \<or> interval \<le> 0 then Inl (Error msg_dose)
      else
        let v = pk_switch antibiotic dose interval weight crCl;
            times = curve_times interval;
            concs = map (curve_point v dose weight) times
        in case evaluate_dosing antibiotic v dose interval weight of
             Inl e \<Rightarrow> Inl e
           | Inr (st, sg) \<Rightarrow>
               (let (times', concs') =
                      (case (measuredTime v interval level levelType randomTime, level) of
                         (Some mt, Some l) \<Rightarrow> (times @ [mt], concs @ [Num l])
                       | _ \<Rightarrow> (times, concs))
                in (case t1_2_v v of
                      None \<Rightarrow> Inl TypeError
                    | Some half \<Rightarrow>
                        Inr \<lparr>timePoints = times', concentrations = concs',
                             Cmax = toFixed2 (Cmax_v v), Cmin = toFixed2 (Cmin_v v),
                             auc = toFixed2 (auc_v v), t1_2 = toFixed2 half,
                             status = st, suggestion = sg\<rparr>)))"

text \<open>The submit handler: \<^verbatim>\<open>calculateClearance\<close>, then \<^verbatim>\<open>simulatePK\<close> on its result.\<close>

definition submit ::
  "real \<Rightarrow> real \<Rightarrow> ageUnit \<Rightarrow> real \<Rightarrow> antibiotic \<Rightarrow> real \<Rightarrow> real
   \<Rightarrow> real option \<Rightarrow> levelType option \<Rightarrow> real option \<Rightarrow> error + pkresult" where
  "submit weight ageValue ageUnit creatinine antibiotic dose interval level levelType randomTime =
     (case calculateClearance weight ageValue ageUnit creatinine of
        Inl e \<Rightarrow> Inl e
      | Inr crCl \<Rightarrow> simulatePK antibiotic dose interval weight crCl level levelType randomTime)"

section \<open>The pharmacokinetic formulas in the words of the specification\<close>

definition spec_crCl :: "real \<Rightarrow> real \<Rightarrow> real" where
  "spec_crCl clearance weight = (clearance / 1000) * 60 / weight"

definition spec_Vd :: "antibiotic \<Rightarrow> real" where
  "spec_Vd ab =
     (if ab = Vancomycin_intermittent \<or> ab = Vancomycin_continuous then 0.7 else 0.25)"

definition spec_infusionTime :: "antibiotic \<Rightarrow> real" where
  "spec_infusionTime ab =
     (if ab = Vancomycin_intermittent then 1
      else if ab = Vancomycin_continuous then 24
      else 0.5)"

definition spec_Ke :: "antibiotic \<Rightarrow> real \<Rightarrow> real \<Rightarrow> real" where
  "spec_Ke ab clearance weight =
     (if ab = Vancomycin_intermittent \<or> ab = Vancomycin_continuous
      then spec_crCl clearance weight * 0.00083 + 0.0044
      else spec_crCl clearance weight * 0.0029 + 0.01)"

definition spec_auc :: "antibiotic \<Rightarrow> real \<Rightarrow> real \<Rightarrow> real \<Rightarrow> real \<Rightarrow> real" where
  "spec_auc ab dose interval weight clearance =
     (if ab = Vancomycin_continuous
      then (dose / weight / 24) / (spec_Ke ab clearance weight * spec_Vd ab) * 24
      else (dose / weight / interval) / (spec_Ke ab clearance weight * spec_Vd ab) * 24)"

definition spec_Cmax :: "antibiotic \<Rightarrow> real \<Rightarrow> real \<Rightarrow> real \<Rightarrow> real \<Rightarrow> real" where
  "spec_Cmax ab dose interval weight clearance =
     (if ab = Vancomycin_continuous
      then spec_auc ab dose interval weight clearance / 24
      else (dose / weight)
           / (spec_Vd ab * (1 - exp (- (spec_Ke ab clearance weight * spec_infusionTime ab)))))"

definition spec_Cmin :: "antibiotic \<Rightarrow> real \<Rightarrow> real \<Rightarrow> real \<Rightarrow> real \<Rightarrow> real" where
  "spec_Cmin ab dose interval weight clearance =
     (if ab = Vancomycin_continuous
      then spec_auc ab dose interval weight clearance / 24
      else spec_Cmax ab dose interval weight clearance
           * exp (- (spec_Ke ab clearance weight * (interval - spec_infusionTime ab))))"

section \<open>The dose evaluation in the words of the specification\<close>

definition nearest_integer :: "real \<Rightarrow> real" where
  "nearest_integer x = of_int \<lfloor>x + 1 / 2\<rfloor>"

definition spec_peak :: "antibiotic \<Rightarrow> real \<times> real" where
  "spec_peak ab = (if ab = Amikacin then (20, 30) else (5, 10))"

definition spec_trough :: "antibiotic \<Rightarrow> real \<times> real" where
  "spec_trough ab = (if ab = Amikacin then (0, 5) else (0, 2))"

definition spec_insufficient :: "antibiotic \<Rightarrow> real \<Rightarrow> real \<Rightarrow> real \<Rightarrow> bool" where
  "spec_insufficient ab cmax cmin a =
     (if ab = Vancomycin_intermittent then a < 400 \<or> cmin < 10
      else cmax < fst (spec_peak ab) \<or> cmin < fst (spec_trough ab))"

definition spec_excessive :: "antibiotic \<Rightarrow> real \<Rightarrow> real \<Rightarrow> real \<Rightarrow> bool" where
  "spec_excessive ab cmax cmin a =
     (if ab = Vancomycin_intermittent then a > 600 \<or> cmin > 20
      else cmax > snd (spec_peak ab) \<or> cmin > snd (spec_trough ab))"

definition spec_status :: "antibiotic \<Rightarrow> real \<Rightarrow> real \<Rightarrow> real \<Rightarrow> string" where
  "spec_status ab cmax cmin a =
     (if spec_insufficient ab cmax cmin a then Insuficiente
      else if spec_excessive ab cmax cmin a then Excessiva
      else Adequada)"

definition spec_suggestion ::
  "antibiotic \<Rightarrow> real \<Rightarrow> real \<Rightarrow> real \<Rightarrow> real \<Rightarrow> real \<Rightarrow> template" where
  "spec_suggestion ab dose interval cmax cmin a =
     (if spec_insufficient ab cmax cmin a then
        increase_text
          (Num (nearest_integer
             (dose * (if ab = Vancomycin_intermittent then 400 / a
                      else snd (spec_peak ab) / cmax))))
          (Num (nearest_integer (interval * 0.8)))
      else if spec_excessive ab cmax cmin a then
        reduce_text
          (Num (nearest_integer
             (dose * (if ab = Vancomycin_intermittent then 600 / a
                      else fst (spec_peak ab) / cmax))))
          (Num (nearest_integer (interval * 1.2)))
      else [])"

section \<open>The binary64 reading\<close>

text \<open>
  In the sections above a finite number is an exact real. That reading leaves out the
  rounding of doubles, and so it cannot say on which side of a threshold a computed value
  falls, which way \<^verbatim>\<open>Math.round\<close> goes near a tie, or which digit \<^verbatim>\<open>toFixed\<close> prints.
  In the reading of this section a finite number is a double, given by the real it is,
  and every operation returns the double nearest to the exact result (a tie going to the
  even significand), or an infinity on overflow. Zero is still the positive zero only.
\<close>

fun exponent_search :: "nat \<Rightarrow> real \<Rightarrow> int" where
  "exponent_search 0 x = - 1022"
| "exponent_search (Suc n) x =
     (if 2 powi (int (Suc n) - 1022) \<le> x then int (Suc n) - 1022 else exponent_search n x)"

text \<open>The exponent of the binade of \<open>x\<close>, between \<open>- 1022\<close> (also for the subnormal
  numbers) and 1023.\<close>

definition exponent64 :: "real \<Rightarrow> int" where
  "exponent64 x = exponent_search 2045 \<bar>x\<bar>"

definition round_half_even :: "real \<Rightarrow> int" where
  "round_half_even x =
     (let f = \<lfloor>x\<rfloor> in
      if x - of_int f < 1 / 2 then f
      else if 1 / 2 < x - of_int f then f + 1
      else if even f then f else f + 1)"

text \<open>The double nearest to a real: a multiple \<open>m * 2^(e - 52)\<close> of the spacing of
  the binade, with \<open>m \<le> 2^53\<close>; above the largest double, an infinity.\<close>

definition round64 :: "real \<Rightarrow> jsnum" where
  "round64 x =
     (let q = 2 powi (exponent64 x - 52);
          m = round_half_even (\<bar>x\<bar> / q)
      in if 2 ^ 53 \<le> m \<and> exponent64 x = 1023 then signed_inf (0 < x)
         else Num (if x < 0 then - (of_int m * q) else of_int m * q))"

fun fl64 :: "jsnum \<Rightarrow> jsnum" where
  "fl64 (Num x) = round64 x"
| "fl64 PosInf = PosInf"
| "fl64 NegInf = NegInf"
| "fl64 NaN = NaN"

text \<open>The four operations of JavaScript, and a decimal numeral of the source.\<close>

definition add64 :: "jsnum \<Rightarrow> jsnum \<Rightarrow> jsnum" where
  "add64 a b = fl64 (a + b)"

definition sub64 :: "jsnum \<Rightarrow> jsnum \<Rightarrow> jsnum" where
  "sub64 a b = fl64 (a - b)"

definition mul64 :: "jsnum \<Rightarrow> jsnum \<Rightarrow> jsnum" where
  "mul64 a b = fl64 (a * b)"

definition div64 :: "jsnum \<Rightarrow> jsnum \<Rightarrow> jsnum" where
  "div64 a b = fl64 (a / b)"

definition lit64 :: "real \<Rightarrow> jsnum" where
  "lit64 d = round64 d"

text \<open>\<^verbatim>\<open>Math.exp\<close> on a double is whatever the engine computes: the parameter
  \<open>fexp\<close>. \<^verbatim>\<open>Math.max\<close>, \<^verbatim>\<open>Math.ceil\<close> and \<^verbatim>\<open>Math.round\<close> are exact.\<close>

fun Math_exp64 :: "(real \<Rightarrow> jsnum) \<Rightarrow> jsnum \<Rightarrow> jsnum" where
  "Math_exp64 fexp (Num x) = fexp x"
| "Math_exp64 fexp PosInf = PosInf"
| "Math_exp64 fexp NegInf = Num 0"
| "Math_exp64 fexp NaN = NaN"

fun Math_max :: "jsnum \<Rightarrow> jsnum \<Rightarrow> jsnum" where
  "Math_max NaN b = NaN"
| "Math_max a NaN = NaN"
| "Math_max a b = (if a < b then b else a)"

fun Math_ceil :: "jsnum \<Rightarrow> jsnum" where
  "Math_ceil (Num x) = Num (of_int \<lceil>x\<rceil>)"
| "Math_ceil PosInf = PosInf"
| "Math_ceil NegInf = NegInf"
| "Math_ceil NaN = NaN"

text \<open>The length \<^verbatim>\<open>Array.from({length: c}, \<dots>)\<close> gives its array.\<close>

fun array_length :: "jsnum \<Rightarrow> error + nat" where
  "array_length (Num x) = (if 4294967295 < x then Inl RangeError else Inr (nat \<lfloor>x\<rfloor>))"
| "array_length PosInf = Inl RangeError"
| "array_length NegInf = Inr 0"
| "array_length NaN = Inr 0"

subsection \<open>calculateClearance\<close>

definition calculateClearance64 :: "jsnum \<Rightarrow> jsnum \<Rightarrow> ageUnit \<Rightarrow> jsnum \<Rightarrow> error + jsnum" where
  "calculateClearance64 weight ageValue ageUnit creatinine =
     (if weight \<le> Num 0 \<or> creatinine \<le> Num 0 then Inl (Error msg_clearance)
      else
        let ageInDays = (if ageUnit = Days then ageValue
                         else if ageUnit = Months then mul64 ageValue (lit64 30.42)
                         else mul64 ageValue (lit64 365.25));
            crCl =
              (if ageInDays \<le> Num 28 \<or> ageUnit = Months \<or> (ageUnit = Years \<and> ageValue < Num 18)
               then
                 let k = (if ageInDays \<le> Num 7 then lit64 0.33
                          else if ageInDays \<le> Num 28 then lit64 0.45
                          else if ageUnit = Months then lit64 0.55
                          else lit64 0.413);
                     height = add64 (Num 50)
                                (mul64 ageValue (if ageUnit = Years then Num 12
                                                 else if ageUnit = Months then Num 1
                                                 else lit64 0.1))
                 in div64 (mul64 k height) creatinine
               else
                 let ageYears = (if ageUnit = Years then ageValue
                                 else if ageUnit = Months then div64 ageValue (Num 12)
                                 else div64 ageValue (lit64 365.25))
                 in div64 (mul64 (sub64 (Num 140) ageYears) weight) (mul64 (Num 72) creatinine))
        in Inr (Math_max (Num 0) crCl))"

subsection \<open>simulatePK\<close>

definition intermittent_case64 ::
  "(real \<Rightarrow> jsnum) \<Rightarrow> jsnum \<Rightarrow> jsnum \<Rightarrow> jsnum \<Rightarrow> jsnum \<Rightarrow> jsnum \<Rightarrow> jsnum \<Rightarrow> jsnum \<Rightarrow> jsnum
   \<Rightarrow> pkvars" where
  "intermittent_case64 fexp vd slope icpt tinf dose interval weight crCl =
     (let Vd = vd;
          Ke = add64 (mul64 crCl slope) icpt;
          t1_2 = div64 (lit64 0.693) Ke;
          infusionTime = tinf;
          Cmax = div64 (div64 dose weight)
                   (mul64 Vd (sub64 (Num 1) (Math_exp64 fexp (mul64 (- Ke) infusionTime))));
          Cmin = mul64 Cmax (Math_exp64 fexp (mul64 (- Ke) (sub64 interval infusionTime)));
          auc = mul64 (div64 (div64 (div64 dose weight) interval) (mul64 Ke Vd)) (Num 24)
      in \<lparr>Vd = Vd, Ke = Ke, t1_2_v = Some t1_2, infusionTime = infusionTime,
          Cmax_v = Cmax, Cmin_v = Cmin, auc_v = auc\<rparr>)"

definition pk_switch64 ::
  "(real \<Rightarrow> jsnum) \<Rightarrow> antibiotic \<Rightarrow> jsnum \<Rightarrow> jsnum \<Rightarrow> jsnum \<Rightarrow> jsnum \<Rightarrow> pkvars" where
  "pk_switch64 fexp antibiotic dose interval weight clearance =
     (let crCl = div64 (mul64 (div64 clearance (Num 1000)) (Num 60)) weight
      in case antibiotic of
           Vancomycin_intermittent \<Rightarrow>
             intermittent_case64 fexp (lit64 0.7) (lit64 0.00083) (lit64 0.0044) (Num 1)
               dose interval weight crCl
         | Vancomycin_continuous \<Rightarrow>
             (let Vd = lit64 0.7;
                  Ke = add64 (mul64 crCl (lit64 0.00083)) (lit64 0.0044);
                  infusionTime = Num 24;
                  auc = mul64 (div64 (div64 (div64 dose weight) (Num 24)) (mul64 Ke Vd)) (Num 24);
                  Cmax = div64 auc (Num 24);
                  Cmin = Cmax
              in \<lparr>Vd = Vd, Ke = Ke, t1_2_v = None, infusionTime = infusionTime,
                  Cmax_v = Cmax, Cmin_v = Cmin, auc_v = auc\<rparr>)
         | Gentamicin \<Rightarrow>
             intermittent_case64 fexp (lit64 0.25) (lit64 0.0029) (lit64 0.01) (lit64 0.5)
               dose interval weight crCl
         | Tobramycin \<Rightarrow>
             intermittent_case64 fexp (lit64 0.25) (lit64 0.0029) (lit64 0.01) (lit64 0.5)
               dose interval weight crCl
         | Amikacin \<Rightarrow>
             intermittent_case64 fexp (lit64 0.25) (lit64 0.0029) (lit64 0.01) (lit64 0.5)
               dose interval weight crCl)"

definition curve_times64 :: "nat \<Rightarrow> jsnum list" where
  "curve_times64 n = map (\<lambda>i. div64 (Num (real i)) (Num 2)) [0 ..< n]"

definition curve_point64 ::
  "(real \<Rightarrow> jsnum) \<Rightarrow> pkvars \<Rightarrow> jsnum \<Rightarrow> jsnum \<Rightarrow> jsnum \<Rightarrow> jsnum" where
  "curve_point64 fexp v dose weight t =
     (if t \<le> infusionTime v
      then div64 (div64 dose weight)
             (mul64 (Vd v) (sub64 (Num 1) (Math_exp64 fexp (mul64 (- Ke v) t))))
      else mul64 (Cmax_v v) (Math_exp64 fexp (mul64 (- Ke v) (sub64 t (infusionTime v)))))"

definition evaluate_dosing64 ::
  "antibiotic \<Rightarrow> pkvars \<Rightarrow> jsnum \<Rightarrow> jsnum \<Rightarrow> jsnum \<Rightarrow> error + string \<times> template" where
  "evaluate_dosing64 antibiotic v dose interval weight =
     (let Cmax = Cmax_v v; Cmin = Cmin_v v; auc = auc_v v in
      if antibiotic = Vancomycin_continuous then
        (if auc < Num 400 then
           Inr (Insuficiente,
                daily_increase_text (Math_round (mul64 dose (div64 (Num 400) auc))))
         else if Num 600 < auc then
           Inr (Excessiva, daily_reduce_text (Math_round (mul64 dose (div64 (Num 600) auc))))
         else if Cmax < Num 20 \<or> Num 25 < Cmax then
           Inr (Fora_da_faixa,
                steady_text
                  (Math_round
                     (mul64 (mul64 (mul64 (mul64 (Num 20) (Vd v)) (Ke v)) weight) (Num 24))))
         else Inr (Adequada, []))
      else
        let targetPeak = peak (therapeuticRanges antibiotic);
            targetTrough = trough (therapeuticRanges antibiotic)
        in if antibiotic = Vancomycin_intermittent then
             (if auc < Num 400 \<or> Cmin < Num 10 then
                Inr (Insuficiente,
                     increase_text (Math_round (mul64 dose (div64 (Num 400) auc)))
                                   (Math_round (mul64 interval (lit64 0.8))))
              else if Num 600 < auc \<or> Num 20 < Cmin then
                Inr (Excessiva,
                     reduce_text (Math_round (mul64 dose (div64 (Num 600) auc)))
                                 (Math_round (mul64 interval (lit64 1.2))))
              else Inr (Adequada, []))
           else
             (case (targetPeak, targetTrough) of
                (Some (peak0, peak1), Some (trough0, trough1)) \<Rightarrow>
                  (if Cmax < peak0 \<or> Cmin < trough0 then
                     Inr (Insuficiente,
                          increase_text (Math_round (mul64 dose (div64 peak1 Cmax)))
                                        (Math_round (mul64 interval (lit64 0.8))))
                   else if peak1 < Cmax \<or> trough1 < Cmin then
                     Inr (Excessiva,
                          reduce_text (Math_round (mul64 dose (div64 peak0 Cmax)))
                                      (Math_round (mul64 interval (lit64 1.2))))
                   else Inr (Adequada, []))
              | _ \<Rightarrow> Inl TypeError))"

text \<open>A level is truthy when it is a number other than zero and NaN.\<close>

definition measuredTime64 ::
  "pkvars \<Rightarrow> jsnum \<Rightarrow> jsnum option \<Rightarrow> levelType option \<Rightarrow> jsnum option \<Rightarrow> jsnum option" where
  "measuredTime64 v interval level levelType randomTime =
     (case (level, levelType) of
        (Some l, Some ty) \<Rightarrow>
          (if l = Num 0 \<or> l = NaN then None
           else case ty of
                  Peak \<Rightarrow> Some (infusionTime v)
                | Trough \<Rightarrow> Some (sub64 interval (lit64 0.1))
                | Random \<Rightarrow>
                    (case randomTime of
                       None \<Rightarrow> None
                     | Some rt \<Rightarrow> if Num 0 \<le> rt then Some rt else None))
      | _ \<Rightarrow> None)"

definition simulatePK64 ::
  "(real \<Rightarrow> jsnum) \<Rightarrow> antibiotic \<Rightarrow> jsnum \<Rightarrow> jsnum \<Rightarrow> jsnum \<Rightarrow> jsnum
   \<Rightarrow> jsnum option \<Rightarrow> levelType option \<Rightarrow> jsnum option \<Rightarrow> error + pkresult" where
  "simulatePK64 fexp antibiotic dose interval weight crCl level levelType randomTime =
     (if dose \<le> Num 0 \<or> interval \<le> Num 0 then Inl (Error msg_dose)
      else
        let v = pk_switch64 fexp antibiotic dose interval weight crCl
        in case array_length (Math_ceil (mul64 interval (Num 2))) of
             Inl e \<Rightarrow> Inl e
           | Inr n \<Rightarrow>
               (let times = curve_times64 n;
                    concs = map (curve_point64 fexp v dose weight) times
                in case evaluate_dosing64 antibiotic v dose interval weight of
                     Inl e \<Rightarrow> Inl e
                   | Inr (st, sg) \<Rightarrow>
                       (let (times', concs') =
                              (case (measuredTime64 v interval level levelType randomTime,
                                     level) of
                                 (Some mt, Some l) \<Rightarrow> (times @ [mt], concs @ [l])
                               | _ \<Rightarrow> (times, concs))
                        in (case t1_2_v v of
                              None \<Rightarrow> Inl TypeError
                            | Some half \<Rightarrow>
                                Inr \<lparr>timePoints = times', concentrations = concs',
                                     Cmax = toFixed2 (Cmax_v v), Cmin = toFixed2 (Cmin_v v),
                                     auc = toFixed2 (auc_v v), t1_2 = toFixed2 half,
                                     status = st, suggestion = sg\<rparr>))))"

subsection \<open>The specification in the binary64 reading\<close>

definition spec_ageInDays64 :: "jsnum \<Rightarrow> ageUnit \<Rightarrow> jsnum" where
  "spec_ageInDays64 ageValue u =
     (case u of Days \<Rightarrow> ageValue
      | Months \<Rightarrow> mul64 ageValue (lit64 30.42)
      | Years \<Rightarrow> mul64 ageValue (lit64 365.25))"

definition spec_pediatric64 :: "jsnum \<Rightarrow> ageUnit \<Rightarrow> bool" where
  "spec_pediatric64 ageValue u =
     (spec_ageInDays64 ageValue u \<le> Num 28 \<or> u = Months \<or> (u = Years \<and> ageValue < Num 18))"

definition spec_k64 :: "jsnum \<Rightarrow> ageUnit \<Rightarrow> jsnum" where
  "spec_k64 ageValue u =
     (if spec_ageInDays64 ageValue u \<le> Num 7 then lit64 0.33
      else if spec_ageInDays64 ageValue u \<le> Num 28 then lit64 0.45
      else if u = Months then lit64 0.55
      else lit64 0.413)"

definition spec_height64 :: "jsnum \<Rightarrow> ageUnit \<Rightarrow> jsnum" where
  "spec_height64 ageValue u =
     add64 (Num 50)
       (mul64 ageValue (case u of Years \<Rightarrow> Num 12 | Months \<Rightarrow> Num 1 | Days \<Rightarrow> lit64 0.1))"

definition spec_ageYears64 :: "jsnum \<Rightarrow> ageUnit \<Rightarrow> jsnum" where
  "spec_ageYears64 ageValue u =
     (case u of Years \<Rightarrow> ageValue
      | Months \<Rightarrow> div64 ageValue (Num 12)
      | Days \<Rightarrow> div64 ageValue (lit64 365.25))"

definition spec_clearance64 :: "jsnum \<Rightarrow> jsnum \<Rightarrow> ageUnit \<Rightarrow> jsnum \<Rightarrow> jsnum" where
  "spec_clearance64 weight ageValue u creatinine =
     Math_max (Num 0)
       (if spec_pediatric64 ageValue u
        then div64 (mul64 (spec_k64 ageValue u) (spec_height64 ageValue u)) creatinine
        else div64 (mul64 (sub64 (Num 140) (spec_ageYears64 ageValue u)) weight)
               (mul64 (Num 72) creatinine))"

definition spec_Ke64 :: "antibiotic \<Rightarrow> jsnum \<Rightarrow> jsnum \<Rightarrow> jsnum" where
  "spec_Ke64 ab clearance weight =
     (let crCl = div64 (mul64 (div64 clearance (Num 1000)) (Num 60)) weight
      in if ab = Vancomycin_intermittent \<or> ab = Vancomycin_continuous
         then add64 (mul64 crCl (lit64 0.00083)) (lit64 0.0044)
         else add64 (mul64 crCl (lit64 0.0029)) (lit64 0.01))"

definition spec_insufficient64 :: "antibiotic \<Rightarrow> jsnum \<Rightarrow> jsnum \<Rightarrow> jsnum \<Rightarrow> bool" where
  "spec_insufficient64 ab cmax cmin a =
     (if ab = Vancomycin_intermittent then a < Num 400 \<or> cmin < Num 10
      else if ab = Amikacin then cmax < Num 20 \<or> cmin < Num 0
      else cmax < Num 5 \<or> cmin < Num 0)"

definition spec_excessive64 :: "antibiotic \<Rightarrow> jsnum \<Rightarrow> jsnum \<Rightarrow> jsnum \<Rightarrow> bool" where
  "spec_excessive64 ab cmax cmin a =
     (if ab = Vancomycin_intermittent then Num 600 < a \<or> Num 20 < cmin
      else if ab = Amikacin then Num 30 < cmax \<or> Num 5 < cmin
      else Num 10 < cmax \<or> Num 2 < cmin)"

definition spec_status64 :: "antibiotic \<Rightarrow> jsnum \<Rightarrow> jsnum \<Rightarrow> jsnum \<Rightarrow> string" where
  "spec_status64 ab cmax cmin a =
     (if spec_insufficient64 ab cmax cmin a then ''Insuficiente''
      else if spec_excessive64 ab cmax cmin a then ''Excessiva''
      else ''Adequada'')"

definition spec_suggestion64 ::
  "antibiotic \<Rightarrow> jsnum \<Rightarrow> jsnum \<Rightarrow> jsnum \<Rightarrow> jsnum \<Rightarrow> jsnum \<Rightarrow> template" where
  "spec_suggestion64 ab dose interval cmax cmin a =
     (if spec_insufficient64 ab cmax cmin a then
        [Lit ''Aumentar dose para '',
         Val (Math_round
                (mul64 dose
                   (if ab = Vancomycin_intermittent then div64 (Num 400) a
                    else if ab = Amikacin then div64 (Num 30) cmax
                    else div64 (Num 10) cmax))),
         Lit '' mg ou reduzir intervalo para '',
         Val (Math_round (mul64 interval (lit64 0.8))),
         Lit '' h'']
      else if spec_excessive64 ab cmax cmin a then
        [Lit ''Reduzir dose para '',
         Val (Math_round
                (mul64 dose
                   (if ab = Vancomycin_intermittent then div64 (Num 600) a
                    else if ab = Amikacin then div64 (Num 20) cmax
                    else div64 (Num 5) cmax))),
         Lit '' mg ou aumentar intervalo para '',
         Val (Math_round (mul64 interval (lit64 1.2))),
         Lit '' h'']
      else [])"

definition spec_status_continuous64 :: "jsnum \<Rightarrow> jsnum \<Rightarrow> string" where
  "spec_status_continuous64 cmax a =
     (if a < Num 400 then ''Insuficiente''
      else if Num 600 < a then ''Excessiva''
      else if cmax < Num 20 \<or> Num 25 < cmax then
        ''Fora da faixa est'' @ [CHR 0xC3, CHR 0xA1] @ ''vel''
      else ''Adequada'')"

definition spec_suggestion_continuous64 ::
  "jsnum \<Rightarrow> jsnum \<Rightarrow> jsnum \<Rightarrow> jsnum \<Rightarrow> jsnum \<Rightarrow> jsnum \<Rightarrow> template" where
  "spec_suggestion_continuous64 dose weight vd ke cmax a =
     (if a < Num 400 then
        [Lit (''Aumentar dose di'' @ [CHR 0xC3, CHR 0xA1] @ ''ria para ''),
         Val (Math_round (mul64 dose (div64 (Num 400) a))), Lit '' mg/dia'']
      else if Num 600 < a then
        [Lit (''Reduzir dose di'' @ [CHR 0xC3, CHR 0xA1] @ ''ria para ''),
         Val (Math_round (mul64 dose (div64 (Num 600) a))), Lit '' mg/dia'']
      else if cmax < Num 20 \<or> Num 25 < cmax then
        [Lit ''Ajustar dose para '',
         Val (Math_round (mul64 (mul64 (mul64 (mul64 (Num 20) vd) ke) weight) (Num 24))),
         Lit ('' mg/dia para atingir 20'' @ [CHR 0xE2, CHR 0x80, CHR 0x93] @ ''25 ''
              @ [CHR 0xC2, CHR 0xB5] @ ''g/mL'')]
      else [])"

section \<open>The appended point\<close>

text \<open>The pair the block "Adjust for measured level" pushes onto the two arrays, as a
  list: empty when nothing is pushed.\<close>

definition overlay :: "pkvars \<Rightarrow> real \<Rightarrow> real option \<Rightarrow> levelType option \<Rightarrow> real option
    \<Rightarrow> (jsnum \<times> jsnum) list" where
  "overlay v interval level lt rt =
     (case (measuredTime v interval level lt rt, level) of
        (Some mt, Some l) \<Rightarrow> [(mt, Num l)]
      | _ \<Rightarrow> [])"

text \<open>A result with one more point at the end of both arrays.\<close>

definition append_point :: "jsnum \<Rightarrow> jsnum \<Rightarrow> pkresult \<Rightarrow> pkresult" where
  "append_point t x r =
     r\<lparr>timePoints := timePoints r @ [t], concentrations := concentrations r @ [x]\<rparr>"

section \<open>Arithmetic on finite numbers\<close>

lemma Num_minus [simp]: "Num x - Num y = Num (x - y)"
  by (simp add: minus_jsnum_def)

lemma intermittent_case_valid:
  assumes "0 < weight" "0 < interval" "0 < vd" "0 < tinf" "0 < c * slope + icpt"
  shows "intermittent_case (Num vd) (Num slope) (Num icpt) (Num tinf) dose interval weight (Num c) =
    \<lparr>Vd = Num vd, Ke = Num (c * slope + icpt),
     t1_2_v = Some (Num (0.693 / (c * slope + icpt))), infusionTime = Num tinf,
     Cmax_v = Num ((dose / weight) / (vd * (1 - exp (- ((c * slope + icpt) * tinf))))),
     Cmin_v = Num ((dose / weight) / (vd * (1 - exp (- ((c * slope + icpt) * tinf))))
                   * exp (- ((c * slope + icpt) * (interval - tinf)))),
     auc_v = Num ((dose / weight / interval) / ((c * slope + icpt) * vd) * 24)\<rparr>"
proof -
  define ke where "ke = c * slope + icpt"
  have kp: "0 < ke" using assms by (simp add: ke_def)
  then have "0 < ke * tinf" using \<open>0 < tinf\<close> by simp
  then have "0 < 1 - exp (- (ke * tinf))" by simp
  with \<open>0 < vd\<close> have "0 < vd * (1 - exp (- (ke * tinf)))" by (rule mult_pos_pos)
  then have d: "vd * (1 - exp (- (ke * tinf))) \<noteq> 0" by (metis less_irrefl)
  have "0 < ke * vd" using kp \<open>0 < vd\<close> by (rule mult_pos_pos)
  then have e: "ke * vd \<noteq> 0" by (metis less_irrefl)
  have f: "ke \<noteq> 0" "weight \<noteq> 0" "interval \<noteq> 0" using assms kp by simp_all
  have k: "Num c * Num slope + Num icpt = Num ke" by (simp add: ke_def)
  show ?thesis
    unfolding intermittent_case_def Let_def k ke_def [symmetric]
    using d e f by simp
qed

lemma spec_Ke_pos: "0 < weight \<Longrightarrow> 0 \<le> clearance \<Longrightarrow> 0 < spec_Ke ab clearance weight"
  by (simp add: spec_Ke_def spec_crCl_def add_nonneg_pos)

lemma continuous_case_valid:
  assumes "0 < weight" "0 < c * slope + icpt"
  shows "(Num dose / Num weight / Num 24) / ((Num c * Num slope + Num icpt) * Num 0.7) * Num 24
       = Num ((dose / weight / 24) / ((c * slope + icpt) * 0.7) * 24)"
proof -
  define ke where "ke = c * slope + icpt"
  have kp: "0 < ke" using assms by (simp add: ke_def)
  have e: "ke * 0.7 \<noteq> 0" "weight \<noteq> 0" using kp assms by simp_all
  have k: "Num c * Num slope + Num icpt = Num ke" by (simp add: ke_def)
  show ?thesis unfolding k ke_def [symmetric] using e by simp
qed

lemma pk_switch_valid:
  assumes "0 < weight" "0 < interval" "0 \<le> clearance"
  shows "pk_switch ab dose interval weight clearance =
    \<lparr>Vd = Num (spec_Vd ab), Ke = Num (spec_Ke ab clearance weight),
     t1_2_v = (if ab = Vancomycin_continuous then None
               else Some (Num (0.693 / spec_Ke ab clearance weight))),
     infusionTime = Num (spec_infusionTime ab),
     Cmax_v = Num (spec_Cmax ab dose interval weight clearance),
     Cmin_v = Num (spec_Cmin ab dose interval weight clearance),
     auc_v = Num (spec_auc ab dose interval weight clearance)\<rparr>"
    (is "_ = ?R")
proof -
  define cr where "cr = spec_crCl clearance weight"
  have w: "weight \<noteq> 0" using assms by simp
  have crCl: "(Num clearance / Num 1000) * Num 60 / Num weight = Num cr"
    using w by (simp add: spec_crCl_def cr_def)
  have c0: "0 \<le> cr" using assms by (simp add: cr_def spec_crCl_def)
  have kv: "0 < cr * 0.00083 + 0.0044" using c0 by (simp add: add_nonneg_pos)
  have ka: "0 < cr * 0.0029 + 0.01" using c0 by (simp add: add_nonneg_pos)
  note specs = spec_Vd_def spec_infusionTime_def spec_Cmax_def spec_Cmin_def spec_auc_def
    spec_Ke_def cr_def [symmetric]
  have amino: "intermittent_case (Num 0.25) (Num 0.0029) (Num 0.01) (Num 0.5)
                 dose interval weight (Num cr) = ?R"
    if "ab = Gentamicin \<or> ab = Tobramycin \<or> ab = Amikacin"
  proof -
    have "intermittent_case (Num 0.25) (Num 0.0029) (Num 0.01) (Num 0.5)
            dose interval weight (Num cr)
        = \<lparr>Vd = Num 0.25, Ke = Num (cr * 0.0029 + 0.01),
           t1_2_v = Some (Num (0.693 / (cr * 0.0029 + 0.01))), infusionTime = Num 0.5,
           Cmax_v = Num ((dose / weight) / (0.25 * (1 - exp (- ((cr * 0.0029 + 0.01) * 0.5))))),
           Cmin_v = Num ((dose / weight) / (0.25 * (1 - exp (- ((cr * 0.0029 + 0.01) * 0.5))))
                       * exp (- ((cr * 0.0029 + 0.01) * (interval - 0.5)))),
           auc_v = Num ((dose / weight / interval) / ((cr * 0.0029 + 0.01) * 0.25) * 24)\<rparr>"
      by (rule intermittent_case_valid [OF assms(1) assms(2) _ _ ka]) simp_all
    also have "\<dots> = ?R" using that by (auto simp: specs)
    finally show ?thesis .
  qed
  show ?thesis
  proof (cases ab)
    case Vancomycin_intermittent
    have "pk_switch ab dose interval weight clearance
        = intermittent_case (Num 0.7) (Num 0.00083) (Num 0.0044) (Num 1) dose interval weight (Num cr)"
      unfolding pk_switch_def Let_def crCl Vancomycin_intermittent by simp
    also have "\<dots> = \<lparr>Vd = Num 0.7, Ke = Num (cr * 0.00083 + 0.0044),
       t1_2_v = Some (Num (0.693 / (cr * 0.00083 + 0.0044))), infusionTime = Num 1,
       Cmax_v = Num ((dose / weight) / (0.7 * (1 - exp (- ((cr * 0.00083 + 0.0044) * 1))))),
       Cmin_v = Num ((dose / weight) / (0.7 * (1 - exp (- ((cr * 0.00083 + 0.0044) * 1))))
                   * exp (- ((cr * 0.00083 + 0.0044) * (interval - 1)))),
       auc_v = Num ((dose / weight / interval) / ((cr * 0.00083 + 0.0044) * 0.7) * 24)\<rparr>"
      by (rule intermittent_case_valid [OF assms(1) assms(2) _ _ kv]) simp_all
    also have "\<dots> = ?R" using Vancomycin_intermittent by (simp add: specs)
    finally show ?thesis .
  next
    case Vancomycin_continuous
    have a: "(Num dose / Num weight / Num 24) / ((Num cr * Num 0.00083 + Num 0.0044) * Num 0.7) * Num 24
        = Num ((dose / weight / 24) / ((cr * 0.00083 + 0.0044) * 0.7) * 24)"
      by (rule continuous_case_valid [OF assms(1) kv])
    have "pk_switch ab dose interval weight clearance
        = \<lparr>Vd = Num 0.7, Ke = Num (cr * 0.00083 + 0.0044), t1_2_v = None,
           infusionTime = Num 24,
           Cmax_v = Num ((dose / weight / 24) / ((cr * 0.00083 + 0.0044) * 0.7) * 24 / 24),
           Cmin_v = Num ((dose / weight / 24) / ((cr * 0.00083 + 0.0044) * 0.7) * 24 / 24),
           auc_v = Num ((dose / weight / 24) / ((cr * 0.00083 + 0.0044) * 0.7) * 24)\<rparr>"
      unfolding pk_switch_def Let_def crCl Vancomycin_continuous antibiotic.case a by simp
    also have "\<dots> = ?R" using Vancomycin_continuous by (simp add: specs)
    finally show ?thesis .
  next
    case Gentamicin
    have "pk_switch ab dose interval weight clearance
        = intermittent_case (Num 0.25) (Num 0.0029) (Num 0.01) (Num 0.5) dose interval weight (Num cr)"
      unfolding pk_switch_def Let_def crCl Gentamicin by simp
    with amino Gentamicin show ?thesis by simp
  next
    case Amikacin
    have "pk_switch ab dose interval weight clearance
        = intermittent_case (Num 0.25) (Num 0.0029) (Num 0.01) (Num 0.5) dose interval weight (Num cr)"
      unfolding pk_switch_def Let_def crCl Amikacin by simp
    with amino Amikacin show ?thesis by simp
  next
    case Tobramycin
    have "pk_switch ab dose interval weight clearance
        = intermittent_case (Num 0.25) (Num 0.0029) (Num 0.01) (Num 0.5) dose interval weight (Num cr)"
      unfolding pk_switch_def Let_def crCl Tobramycin by simp
    with amino Tobramycin show ?thesis by simp
  qed
qed

lemma auc_form_pos:
  "0 < (d::real) \<Longrightarrow> 0 < w \<Longrightarrow> 0 < i \<Longrightarrow> 0 < x \<Longrightarrow> 0 < (d / w / i) / x * 24"
  by simp

lemma spec_auc_pos:
  assumes "0 < weight" "0 < dose" "0 < interval" "0 \<le> clearance"
  shows "0 < spec_auc ab dose interval weight clearance"
proof -
  have k: "0 < spec_Ke ab clearance weight" using assms by (simp add: spec_Ke_pos)
  have v: "0 < spec_Vd ab" by (simp add: spec_Vd_def)
  have kv: "0 < spec_Ke ab clearance weight * spec_Vd ab" using k v by (rule mult_pos_pos)
  have "0 < (dose / weight / 24) / (spec_Ke ab clearance weight * spec_Vd ab) * 24"
    using assms(2) assms(1) _ kv by (rule auc_form_pos) simp
  moreover have "0 < (dose / weight / interval) / (spec_Ke ab clearance weight * spec_Vd ab) * 24"
    using assms(2) assms(1) assms(3) kv by (rule auc_form_pos)
  ultimately show ?thesis unfolding spec_auc_def by (simp only: if_split) simp
qed

lemma spec_Cmax_pos:
  assumes "0 < weight" "0 < dose" "0 < interval" "0 \<le> clearance"
  shows "0 < spec_Cmax ab dose interval weight clearance"
proof (cases "ab = Vancomycin_continuous")
  case True
  then show ?thesis using spec_auc_pos [OF assms, of ab] by (simp add: spec_Cmax_def)
next
  case False
  have k: "0 < spec_Ke ab clearance weight" using assms by (simp add: spec_Ke_pos)
  have v: "0 < spec_Vd ab" by (simp add: spec_Vd_def)
  have t: "0 < spec_infusionTime ab" by (simp add: spec_infusionTime_def)
  have "0 < spec_Ke ab clearance weight * spec_infusionTime ab" using k t by simp
  then have "0 < 1 - exp (- (spec_Ke ab clearance weight * spec_infusionTime ab))" by simp
  with v have "0 < spec_Vd ab * (1 - exp (- (spec_Ke ab clearance weight * spec_infusionTime ab)))"
    by (rule mult_pos_pos)
  moreover have "0 < dose / weight" using assms by simp
  ultimately have "0 < (dose / weight)
      / (spec_Vd ab * (1 - exp (- (spec_Ke ab clearance weight * spec_infusionTime ab))))"
    by (rule divide_pos_pos [rotated])
  then show ?thesis unfolding spec_Cmax_def using False by (simp only: if_False)
qed

lemma evaluate_dosing_intermittent:
  assumes "0 < cmax" "0 < a" "ab \<noteq> Vancomycin_continuous"
    and "Cmax_v v = Num cmax" "Cmin_v v = Num cmin" "auc_v v = Num a"
  shows "evaluate_dosing ab v dose interval weight =
    Inr (spec_status ab cmax cmin a, spec_suggestion ab dose interval cmax cmin a)"
  using assms
  by (cases ab)
    (simp_all add: evaluate_dosing_def Let_def spec_status_def spec_suggestion_def
      spec_insufficient_def spec_excessive_def spec_peak_def spec_trough_def
      nearest_integer_def)

section \<open>Errors\<close>

lemma evaluate_dosing_Inr: "\<exists>st sg. evaluate_dosing ab v d i w = Inr (st, sg)"
  by (cases ab) (simp_all add: evaluate_dosing_def Let_def)

lemma simulatePK_guard:
  "d \<le> 0 \<or> i \<le> 0 \<Longrightarrow> simulatePK ab d i w c l lt rt = Inl (Error msg_dose)"
  by (simp add: simulatePK_def)

lemma simulatePK_no_guard:
  "\<not> (d \<le> 0 \<or> i \<le> 0) \<Longrightarrow> simulatePK ab d i w c l lt rt \<noteq> Inl (Error m)"
  using evaluate_dosing_Inr [of ab "pk_switch ab d i w c" d i w]
  by (auto simp: simulatePK_def Let_def split: option.splits prod.splits)


lemma t1_2_v_continuous: "t1_2_v (pk_switch Vancomycin_continuous d i w c) = None"
  by (simp add: pk_switch_def Let_def)

lemma t1_2_v_intermittent:
  "ab \<noteq> Vancomycin_continuous \<Longrightarrow> \<exists>h. t1_2_v (pk_switch ab d i w c) = Some h"
  by (cases ab) (simp_all add: pk_switch_def intermittent_case_def Let_def)

lemma infusionTime_pk_switch:
  "infusionTime (pk_switch ab d i w c) = Num (spec_infusionTime ab)"
  by (cases ab) (simp_all add: pk_switch_def intermittent_case_def Let_def spec_infusionTime_def)

lemma simulatePK_continuous:
  assumes "0 < d" "0 < i"
  shows "simulatePK Vancomycin_continuous d i w c l lt rt = Inl TypeError"
proof -
  obtain st sg where e: "evaluate_dosing Vancomycin_continuous
      (pk_switch Vancomycin_continuous d i w c) d i w = Inr (st, sg)"
    using evaluate_dosing_Inr by blast
  show ?thesis
    using assms by (simp add: simulatePK_def Let_def e t1_2_v_continuous split: prod.splits)
qed

lemma simulatePK_result:
  assumes "0 < d" "0 < i"
    and "evaluate_dosing ab (pk_switch ab d i w c) d i w = Inr (st, sg)"
    and "t1_2_v (pk_switch ab d i w c) = Some h"
  shows "simulatePK ab d i w c l lt rt =
    Inr \<lparr>timePoints = curve_times i @ map fst (overlay (pk_switch ab d i w c) i l lt rt),
         concentrations = map (curve_point (pk_switch ab d i w c) d w) (curve_times i)
                          @ map snd (overlay (pk_switch ab d i w c) i l lt rt),
         Cmax = toFixed2 (Cmax_v (pk_switch ab d i w c)),
         Cmin = toFixed2 (Cmin_v (pk_switch ab d i w c)),
         auc = toFixed2 (auc_v (pk_switch ab d i w c)),
         t1_2 = toFixed2 h, status = st, suggestion = sg\<rparr>"
  using assms
  by (simp add: simulatePK_def Let_def overlay_def split: option.splits prod.splits)


lemma simulatePK_valid:
  assumes "0 < weight" "0 < dose" "0 < interval" "0 \<le> clearance"
    and "ab \<noteq> Vancomycin_continuous"
  shows "simulatePK ab dose interval weight clearance l lt rt =
    Inr \<lparr>timePoints = curve_times interval
           @ map fst (overlay (pk_switch ab dose interval weight clearance) interval l lt rt),
         concentrations =
           map (curve_point (pk_switch ab dose interval weight clearance) dose weight)
             (curve_times interval)
           @ map snd (overlay (pk_switch ab dose interval weight clearance) interval l lt rt),
         Cmax = toFixed2 (Num (spec_Cmax ab dose interval weight clearance)),
         Cmin = toFixed2 (Num (spec_Cmin ab dose interval weight clearance)),
         auc = toFixed2 (Num (spec_auc ab dose interval weight clearance)),
         t1_2 = toFixed2 (Num (0.693 / spec_Ke ab clearance weight)),
         status = spec_status ab (spec_Cmax ab dose interval weight clearance)
                    (spec_Cmin ab dose interval weight clearance)
                    (spec_auc ab dose interval weight clearance),
         suggestion = spec_suggestion ab dose interval
                    (spec_Cmax ab dose interval weight clearance)
                    (spec_Cmin ab dose interval weight clearance)
                    (spec_auc ab dose interval weight clearance)\<rparr>"
proof -
  define v where "v = pk_switch ab dose interval weight clearance"
  note pv = pk_switch_valid [OF assms(1) assms(3) assms(4), of ab dose, folded v_def]
  have f: "Cmax_v v = Num (spec_Cmax ab dose interval weight clearance)"
    "Cmin_v v = Num (spec_Cmin ab dose interval weight clearance)"
    "auc_v v = Num (spec_auc ab dose interval weight clearance)"
    "t1_2_v v = Some (Num (0.693 / spec_Ke ab clearance weight))"
    using assms(5) by (simp_all add: pv)
  have e: "evaluate_dosing ab v dose interval weight =
     Inr (spec_status ab (spec_Cmax ab dose interval weight clearance)
            (spec_Cmin ab dose interval weight clearance)
            (spec_auc ab dose interval weight clearance),
          spec_suggestion ab dose interval
            (spec_Cmax ab dose interval weight clearance)
            (spec_Cmin ab dose interval weight clearance)
            (spec_auc ab dose interval weight clearance))"
    by (rule evaluate_dosing_intermittent
        [OF spec_Cmax_pos [OF assms(1-4)] spec_auc_pos [OF assms(1-4)] assms(5) f(1) f(2) f(3)])
  show ?thesis
    using simulatePK_result [OF assms(2) assms(3) e [unfolded v_def] f(4) [unfolded v_def]]
    by (simp add: f [unfolded v_def])
qed


section \<open>The result of simulatePK\<close>

lemma simulatePK_Inr_evaluate:
  assumes "simulatePK ab d i w c l lt rt = Inr r"
  shows "evaluate_dosing ab (pk_switch ab d i w c) d i w = Inr (status r, suggestion r)"
proof -
  obtain st sg where e: "evaluate_dosing ab (pk_switch ab d i w c) d i w = Inr (st, sg)"
    using evaluate_dosing_Inr by blast
  have g: "\<not> (d \<le> 0 \<or> i \<le> 0)"
    using assms simulatePK_guard [of d i ab w c l lt rt] by auto
  obtain h where h: "t1_2_v (pk_switch ab d i w c) = Some h"
    using assms g e
    by (cases "t1_2_v (pk_switch ab d i w c)")
      (auto simp: simulatePK_def Let_def split: prod.splits)
  have "0 < d" "0 < i" using g by auto
  from simulatePK_result [OF this e h, of l lt rt] assms have "status r = st" "suggestion r = sg"
    by auto
  with e show ?thesis by simp
qed

lemma status_texts_distinct:
  "distinct [Insuficiente, Excessiva, Adequada, Fora_da_faixa]"
  by (simp add: Insuficiente_def Excessiva_def Adequada_def Fora_da_faixa_def)

lemma evaluate_dosing_shape:
  assumes "evaluate_dosing ab v dose interval weight = Inr (st, sg)"
  shows "st \<in> {Insuficiente, Excessiva, Adequada, Fora_da_faixa} \<and> st \<noteq> []
    \<and> (sg \<noteq> []) = (st \<noteq> Adequada) \<and> (render fmt sg \<noteq> []) = (st \<noteq> Adequada)"
  using assms
  by (cases ab)
    (auto simp: evaluate_dosing_def Let_def render_def increase_text_def reduce_text_def
      dose_or_interval_def daily_increase_text_def daily_reduce_text_def steady_text_def
      Insuficiente_def Excessiva_def Adequada_def Fora_da_faixa_def
      split: if_splits)

lemma curve_times_eq:
  "curve_times i = map (\<lambda>k. Num (real k / 2)) [0 ..< nat \<lceil>i * 2\<rceil>]"
  by (simp add: curve_times_def)

lemma curve_times_Cons:
  assumes "0 < i"
  shows "curve_times i = Num 0 # map (\<lambda>k. Num (real k / 2)) [1 ..< nat \<lceil>i * 2\<rceil>]"
proof -
  have "0 < nat \<lceil>i * 2\<rceil>" using assms by simp
  then have "[0 ..< nat \<lceil>i * 2\<rceil>] = 0 # [1 ..< nat \<lceil>i * 2\<rceil>]"
    by (simp add: upt_conv_Cons)
  then show ?thesis by (simp add: curve_times_eq)
qed

lemma samples_ascending: "sorted_wrt (<) (map (\<lambda>k. Num (real k / 2)) [0 ..< n])"
  by (simp add: sorted_wrt_map sorted_wrt_iff_nth_less)

lemma curve_point_zero:
  assumes "0 < weight" "0 < dose" "0 < interval" "0 \<le> clearance"
  shows "curve_point (pk_switch ab dose interval weight clearance) dose weight (Num 0) = PosInf"
proof -
  have t: "0 \<le> spec_infusionTime ab" by (simp add: spec_infusionTime_def)
  have w: "weight \<noteq> 0" "0 < dose / weight" "dose \<noteq> 0" using assms by simp_all
  show ?thesis
    using t w
    by (simp add: curve_point_def pk_switch_valid [OF assms(1) assms(3) assms(4)] signed_inf_def)
qed

lemma overlay_None [simp]: "overlay v i None lt rt = []"
  by (simp add: overlay_def measuredTime_def)

lemma simulatePK_Inr_arrays:
  assumes "simulatePK ab d i w c l lt rt = Inr r"
  shows "timePoints r = curve_times i @ map fst (overlay (pk_switch ab d i w c) i l lt rt)
    \<and> concentrations r = map (curve_point (pk_switch ab d i w c) d w) (curve_times i)
         @ map snd (overlay (pk_switch ab d i w c) i l lt rt)"
proof -
  obtain st sg where e: "evaluate_dosing ab (pk_switch ab d i w c) d i w = Inr (st, sg)"
    using evaluate_dosing_Inr by blast
  have g: "\<not> (d \<le> 0 \<or> i \<le> 0)"
    using assms simulatePK_guard [of d i ab w c l lt rt] by auto
  obtain h where h: "t1_2_v (pk_switch ab d i w c) = Some h"
    using assms g e
    by (cases "t1_2_v (pk_switch ab d i w c)")
      (auto simp: simulatePK_def Let_def split: prod.splits)
  have "0 < d" "0 < i" using g by auto
  from simulatePK_result [OF this e h, of l lt rt] assms show ?thesis by auto
qed

lemma simulatePK_returns:
  assumes "0 < d" "0 < i" "ab \<noteq> Vancomycin_continuous"
  shows "\<exists>r. simulatePK ab d i w c l lt rt = Inr r"
proof -
  obtain st sg where e: "evaluate_dosing ab (pk_switch ab d i w c) d i w = Inr (st, sg)"
    using evaluate_dosing_Inr by blast
  obtain h where h: "t1_2_v (pk_switch ab d i w c) = Some h"
    using t1_2_v_intermittent [OF assms(3)] by blast
  show ?thesis using simulatePK_result [OF assms(1) assms(2) e h] by blast
qed

lemma overlay_length: "length (overlay v i l lt rt) \<le> 1"
  by (simp add: overlay_def split: option.splits)

lemma upt_4: "[0 ..< 4] = [0, 1, 2, Suc 2]"
  by (simp add: upt_rec)

lemma simulatePK_overlay:
  "simulatePK ab d i w c l lt rt =
     map_sum id
       (\<lambda>r. r\<lparr>timePoints := timePoints r @ map fst (overlay (pk_switch ab d i w c) i l lt rt),
              concentrations := concentrations r
                @ map snd (overlay (pk_switch ab d i w c) i l lt rt)\<rparr>)
       (simulatePK ab d i w c None None None)"
proof (cases "d \<le> 0 \<or> i \<le> 0")
  case True
  then show ?thesis by (simp add: simulatePK_guard)
next
  case False
  then have p: "0 < d" "0 < i" by auto
  obtain st sg where e: "evaluate_dosing ab (pk_switch ab d i w c) d i w = Inr (st, sg)"
    using evaluate_dosing_Inr by blast
  show ?thesis
  proof (cases "t1_2_v (pk_switch ab d i w c)")
    case None
    then show ?thesis
      using False e by (simp add: simulatePK_def Let_def split: prod.splits)
  next
    case (Some h)
    show ?thesis
      by (simp add: simulatePK_result [OF p e Some])
  qed
qed

lemma overlay_cases:
  assumes "level \<noteq> 0"
  shows "overlay v i (Some level) (Some Peak) rt = [(infusionTime v, Num level)]"
    and "overlay v i (Some level) (Some Trough) rt = [(Num (i - 0.1), Num level)]"
    and "0 \<le> t \<Longrightarrow> overlay v i (Some level) (Some Random) (Some t) = [(Num t, Num level)]"
    and "t < 0 \<Longrightarrow> overlay v i (Some level) (Some Random) (Some t) = []"
    and "overlay v i (Some level) (Some Random) None = []"
  using assms by (simp_all add: overlay_def measuredTime_def)

lemma map_sum_same: "map_sum id (\<lambda>r. r) x = x"
  by (cases x) simp_all


section \<open>Half-life and the text of a number\<close>

lemma ln_2_lower: "6931 / 10000 < ln (2::real)"
proof -
  obtain t :: real where
    t: "exp (- (6931 / 10000)) = (\<Sum>m<8. ((- (6931 / 10000)) ^ m) / fact m)
          + (exp t / fact 8) * (- (6931 / 10000)) ^ 8"
    using Maclaurin_exp_le [of "- (6931 / 10000)" 8] by blast
  have "0 \<le> (exp t / fact 8) * (- (6931 / 10000 :: real)) ^ 8"
    by simp
  then have "(\<Sum>m<8. ((- (6931 / 10000 :: real)) ^ m) / fact m) \<le> exp (- (6931 / 10000))"
    using t by linarith
  moreover have "1 / 2 < (\<Sum>m<8. ((- (6931 / 10000 :: real)) ^ m) / fact m)"
    by (simp add: eval_nat_numeral)
  ultimately have "1 / 2 < exp (- (6931 / 10000 :: real))" by linarith
  then have "exp (6931 / 10000 :: real) < 2"
    by (simp add: exp_minus field_simps)
  then have "exp (6931 / 10000 :: real) < exp (ln 2)" by simp
  then show ?thesis by (simp only: exp_less_cancel_iff)
qed

lemma toFixed2_small:
  assumes "0 \<le> x" "x < 10 ^ 21"
  shows "toFixed2 (Num x) = Decimal2 False (nat \<lfloor>x * 100 + 1 / 2\<rfloor>)"
    and "\<bar>real (nat \<lfloor>x * 100 + 1 / 2\<rfloor>) / 100 - x\<bar> \<le> 1 / 200"
proof -
  show "toFixed2 (Num x) = Decimal2 False (nat \<lfloor>x * 100 + 1 / 2\<rfloor>)"
    using assms by simp
  have "0 \<le> \<lfloor>x * 100 + 1 / 2\<rfloor>" using assms by simp
  then have "real (nat \<lfloor>x * 100 + 1 / 2\<rfloor>) = of_int \<lfloor>x * 100 + 1 / 2\<rfloor>" by simp
  then show "\<bar>real (nat \<lfloor>x * 100 + 1 / 2\<rfloor>) / 100 - x\<bar> \<le> 1 / 200"
    by linarith
qed

section \<open>The binary64 reading: rounding\<close>

lemma exponent_search_eq:
  assumes "e \<le> int n - 1022" "- 1022 \<le> e" "e = - 1022 \<or> 2 powi e \<le> x" "x < 2 powi (e + 1)"
  shows "exponent_search n x = e"
  using assms
proof (induction n)
  case 0
  then show ?case by simp
next
  case (Suc n)
  show ?case
  proof (cases "e = int (Suc n) - 1022")
    case True
    then have "e \<noteq> - 1022" by simp
    with Suc.prems True show ?thesis by simp
  next
    case False
    with Suc.prems have le: "e + 1 \<le> int (Suc n) - 1022" by simp
    have "(2::real) powi (e + 1) \<le> 2 powi (int (Suc n) - 1022)"
      using le by (intro power_int_increasing) simp_all
    with Suc.prems have "\<not> 2 powi (int (Suc n) - 1022) \<le> x" by linarith
    moreover have "exponent_search n x = e"
      using Suc.prems le by (intro Suc.IH) simp_all
    ultimately show ?thesis by simp
  qed
qed

lemma exponent64_eq:
  assumes "- 1022 \<le> e" "e \<le> 1023" "e = - 1022 \<or> 2 powi e \<le> \<bar>x\<bar>" "\<bar>x\<bar> < 2 powi (e + 1)"
  shows "exponent64 x = e"
  unfolding exponent64_def using assms by (intro exponent_search_eq) simp_all

lemma round64_eq:
  assumes "- 1022 \<le> e" "e < 1023" "e = - 1022 \<or> 2 powi e \<le> \<bar>x\<bar>" "\<bar>x\<bar> < 2 powi (e + 1)"
    and m: "round_half_even (\<bar>x\<bar> / 2 powi (e - 52)) = m"
    and y: "y = (if x < 0 then - (of_int m * 2 powi (e - 52)) else of_int m * 2 powi (e - 52))"
  shows "round64 x = Num y"
proof -
  have e: "exponent64 x = e" using assms(1-4) by (intro exponent64_eq) simp_all
  show ?thesis
    unfolding round64_def e Let_def m y using assms(2) by simp
qed

text \<open>A tie goes to the even significand; half the smallest subnormal number goes to
  zero; from \<open>2^1024\<close> on the result is an infinity.\<close>

lemma exponent64_top: "2 ^ 1023 \<le> \<bar>x\<bar> \<Longrightarrow> exponent64 x = 1023"
proof -
  assume a: "2 ^ 1023 \<le> \<bar>x\<bar>"
  have s: "(2045::nat) = Suc 2044" by simp
  show ?thesis
    unfolding exponent64_def s exponent_search.simps using a by simp
qed

lemma round64_samples:
  "round64 (2 ^ 53 + 1) = Num (2 ^ 53)"
  "round64 (2 ^ 53 + 3) = Num (2 ^ 53 + 4)"
  "round64 (1 / 2 ^ 1075) = Num 0"
  "round64 (3 / 2 ^ 1075) = Num (1 / 2 ^ 1073)"
  "round64 (- (1 / 10)) = Num (- (3602879701896397 / 2 ^ 55))"
proof -
  show "round64 (2 ^ 53 + 1) = Num (2 ^ 53)"
    by (rule round64_eq [where e = 53 and m = "2 ^ 52"]) (simp_all add: round_half_even_def)
  show "round64 (2 ^ 53 + 3) = Num (2 ^ 53 + 4)"
    by (rule round64_eq [where e = 53 and m = "2 ^ 52 + 2"]) (simp_all add: round_half_even_def)
  show "round64 (1 / 2 ^ 1075) = Num 0"
    by (rule round64_eq [where e = "- 1022" and m = 0])
      (simp_all add: round_half_even_def power_int_minus_divide)
  show "round64 (3 / 2 ^ 1075) = Num (1 / 2 ^ 1073)"
    by (rule round64_eq [where e = "- 1022" and m = 2])
      (simp_all add: round_half_even_def power_int_minus_divide)
  show "round64 (- (1 / 10)) = Num (- (3602879701896397 / 2 ^ 55))"
    by (rule round64_eq [where e = "- 4" and m = 7205759403792794])
      (simp_all add: round_half_even_def)
qed

lemma round64_overflow:
  "round64 (2 ^ 1024) = PosInf"
  "round64 (- (2 ^ 1024)) = NegInf"
proof -
  have e: "exponent64 (2 ^ 1024) = 1023" "exponent64 (- (2 ^ 1024)) = 1023"
    by (rule exponent64_top, simp)+
  have m: "round_half_even (2 ^ 1024 / 2 ^ 971) = 2 ^ 53"
    by (simp add: round_half_even_def)
  show "round64 (2 ^ 1024) = PosInf"
    unfolding round64_def e Let_def using m by (simp add: signed_inf_def)
  show "round64 (- (2 ^ 1024)) = NegInf"
    unfolding round64_def e Let_def using m by (simp add: signed_inf_def)
qed

text \<open>The roundings that the evaluations at concrete arguments below go through, each
  with its binade and significand.\<close>

lemma round64_at_0: "round64 (9204470742932281 / 10000000000000000) = Num (8290650201602491 / 9007199254740992)"
  by (rule round64_eq [where e = "- 1" and m = 8290650201602491]) (simp_all add: round_half_even_def)

lemma round64_at_1: "round64 (1521 / 50) = Num (2140617197884539 / 70368744177664)"
  by (rule round64_eq [where e = "4" and m = 8562468791538156]) (simp_all add: round_half_even_def)

lemma round64_at_2: "round64 (17747108403195212631312992786649 / 633825300114114700748351602688) = Num (28)"
  by (rule round64_eq [where e = "4" and m = 7881299347898368]) (simp_all add: round_half_even_def)

lemma round64_at_3: "round64 (9 / 20) = Num (8106479329266893 / 18014398509481984)"
  by (rule round64_eq [where e = "- 2" and m = 8106479329266893]) (simp_all add: round_half_even_def)

lemma round64_at_4: "round64 (8290650201602491 / 9007199254740992) = Num (8290650201602491 / 9007199254740992)"
  by (rule round64_eq [where e = "- 1" and m = 8290650201602491]) (simp_all add: round_half_even_def)

lemma round64_at_5: "round64 (458650612938652091 / 9007199254740992) = Num (7166415827166439 / 140737488355328)"
  by (rule round64_eq [where e = "5" and m = 7166415827166439]) (simp_all add: round_half_even_def)

lemma round64_at_6: "round64 (58094401767855840615399363404027 / 2535301200456458802993406410752) = Num (6449774244449795 / 281474976710656)"
  by (rule round64_eq [where e = "4" and m = 6449774244449795]) (simp_all add: round_half_even_def)

lemma round64_at_7: "round64 (6449774244449795 / 281474976710656) = Num (6449774244449795 / 281474976710656)"
  by (rule round64_eq [where e = "4" and m = 6449774244449795]) (simp_all add: round_half_even_def)

lemma round64_at_8: "round64 (1461 / 4) = Num (1461 / 4)"
  by (rule round64_eq [where e = "8" and m = 6425545952722944]) (simp_all add: round_half_even_def)

lemma round64_at_9: "round64 (14610) = Num (14610)"
  by (rule round64_eq [where e = "13" and m = 8031932440903680]) (simp_all add: round_half_even_def)

lemma round64_at_10: "round64 (100) = Num (100)"
  by (rule round64_eq [where e = "6" and m = 7036874417766400]) (simp_all add: round_half_even_def)

lemma round64_at_11: "round64 (7000) = Num (7000)"
  by (rule round64_eq [where e = "12" and m = 7696581394432000]) (simp_all add: round_half_even_def)

lemma round64_at_12: "round64 (72) = Num (72)"
  by (rule round64_eq [where e = "6" and m = 5066549580791808]) (simp_all add: round_half_even_def)

lemma round64_at_13: "round64 (875 / 9) = Num (1710351420984889 / 17592186044416)"
  by (rule round64_eq [where e = "6" and m = 6841405683939556]) (simp_all add: round_half_even_def)

lemma round64_at_14: "round64 (13149 / 2) = Num (13149 / 2)"
  by (rule round64_eq [where e = "12" and m = 7228739196813312]) (simp_all add: round_half_even_def)

lemma round64_at_15: "round64 (122) = Num (122)"
  by (rule round64_eq [where e = "6" and m = 8584986789675008]) (simp_all add: round_half_even_def)

lemma round64_at_16: "round64 (8540) = Num (8540)"
  by (rule round64_eq [where e = "13" and m = 4694914650603520]) (simp_all add: round_half_even_def)

lemma round64_at_17: "round64 (2135 / 18) = Num (4173257467203129 / 35184372088832)"
  by (rule round64_eq [where e = "6" and m = 8346514934406258]) (simp_all add: round_half_even_def)

lemma round64_at_18: "round64 (2 / 25) = Num (5764607523034235 / 72057594037927936)"
  by (rule round64_eq [where e = "- 4" and m = 5764607523034235]) (simp_all add: round_half_even_def)

lemma round64_at_19: "round64 (1 / 2) = Num (1 / 2)"
  by (rule round64_eq [where e = "- 1" and m = 4503599627370496]) (simp_all add: round_half_even_def)

lemma round64_at_20: "round64 (8422091591153017335 / 288230376151711744) = Num (1028087352435671 / 35184372088832)"
  by (rule round64_eq [where e = "4" and m = 8224698819485368]) (simp_all add: round_half_even_def)

lemma round64_at_21: "round64 (413 / 1000) = Num (7439946584416059 / 18014398509481984)"
  by (rule round64_eq [where e = "- 2" and m = 7439946584416059]) (simp_all add: round_half_even_def)

lemma round64_at_22: "round64 (17293822569102705 / 18014398509481984) = Num (1080863910568919 / 1125899906842624)"
  by (rule round64_eq [where e = "- 1" and m = 8646911284551352]) (simp_all add: round_half_even_def)

lemma round64_at_23: "round64 (57375859252700119 / 1125899906842624) = Num (7171982406587515 / 140737488355328)"
  by (rule round64_eq [where e = "5" and m = 7171982406587515]) (simp_all add: round_half_even_def)

lemma round64_at_24: "round64 (53359166009382849149401154903385 / 2535301200456458802993406410752) = Num (5924057467841287 / 281474976710656)"
  by (rule round64_eq [where e = "4" and m = 5924057467841287]) (simp_all add: round_half_even_def)

lemma round64_at_25: "round64 (5924057467841287 / 140737488355328) = Num (5924057467841287 / 140737488355328)"
  by (rule round64_eq [where e = "5" and m = 5924057467841287]) (simp_all add: round_half_even_def)

lemma round64_at_26: "round64 (116 / 1461) = Num (2860602638056003 / 36028797018963968)"
  by (rule round64_eq [where e = "- 4" and m = 5721205276112006]) (simp_all add: round_half_even_def)

lemma round64_at_27: "round64 (5041170980016899517 / 36028797018963968) = Num (4923018535172753 / 35184372088832)"
  by (rule round64_eq [where e = "7" and m = 4923018535172753]) (simp_all add: round_half_even_def)

lemma round64_at_28: "round64 (14769055605518259 / 35184372088832) = Num (3692263901379565 / 8796093022208)"
  by (rule round64_eq [where e = "8" and m = 7384527802759130]) (simp_all add: round_half_even_def)

lemma round64_at_29: "round64 (36) = Num (36)"
  by (rule round64_eq [where e = "5" and m = 5066549580791808]) (simp_all add: round_half_even_def)

lemma round64_at_30: "round64 (3692263901379565 / 316659348799488) = Num (6564024713563671 / 562949953421312)"
  by (rule round64_eq [where e = "3" and m = 6564024713563671]) (simp_all add: round_half_even_def)

lemma round64_at_31: "round64 (1 / 10) = Num (3602879701896397 / 36028797018963968)"
  by (rule round64_eq [where e = "- 4" and m = 7205759403792794]) (simp_all add: round_half_even_def)

lemma round64_at_32: "round64 (25220157913274779 / 9007199254740992) = Num (6305039478318695 / 2251799813685248)"
  by (rule round64_eq [where e = "1" and m = 6305039478318695]) (simp_all add: round_half_even_def)

lemma round64_at_33: "round64 (118895030162581095 / 2251799813685248) = Num (3715469692580659 / 70368744177664)"
  by (rule round64_eq [where e = "5" and m = 7430939385161318]) (simp_all add: round_half_even_def)

lemma round64_at_34: "round64 (30119378261422729701359740822487 / 1267650600228229401496703205376) = Num (3343922723322593 / 140737488355328)"
  by (rule round64_eq [where e = "4" and m = 6687845446645186]) (simp_all add: round_half_even_def)

lemma round64_at_35: "round64 (3343922723322593 / 70368744177664) = Num (3343922723322593 / 70368744177664)"
  by (rule round64_eq [where e = "5" and m = 6687845446645186]) (simp_all add: round_half_even_def)

lemma round64_at_36: "round64 (1 / 5) = Num (3602879701896397 / 18014398509481984)"
  by (rule round64_eq [where e = "- 3" and m = 7205759403792794]) (simp_all add: round_half_even_def)

lemma round64_at_37: "round64 (54043195528445955 / 4503599627370496) = Num (12)"
  by (rule round64_eq [where e = "3" and m = 6755399441055744]) (simp_all add: round_half_even_def)

lemma round64_at_38: "round64 (12 / 29) = Num (7454233865992545 / 18014398509481984)"
  by (rule round64_eq [where e = "- 2" and m = 7454233865992545]) (simp_all add: round_half_even_def)

lemma round64_at_39: "round64 (29 / 10000) = Num (208967022709991 / 72057594037927936)"
  by (rule round64_eq [where e = "- 9" and m = 6686944726719712]) (simp_all add: round_half_even_def)

lemma round64_at_40: "round64 (1557689057560448159600903017095 / 1298074214633706907132624082305024) = Num (5534023222112865 / 4611686018427387904)"
  by (rule round64_eq [where e = "- 10" and m = 5534023222112865]) (simp_all add: round_half_even_def)

lemma round64_at_41: "round64 (1 / 100) = Num (5764607523034235 / 576460752303423488)"
  by (rule round64_eq [where e = "- 7" and m = 5764607523034235]) (simp_all add: round_half_even_def)

lemma round64_at_42: "round64 (51650883406386745 / 4611686018427387904) = Num (6456360425798343 / 576460752303423488)"
  by (rule round64_eq [where e = "- 7" and m = 6456360425798343]) (simp_all add: round_half_even_def)

lemma round64_at_43: "round64 (693 / 1000) = Num (6241989083535507 / 9007199254740992)"
  by (rule round64_eq [where e = "- 1" and m = 6241989083535507]) (simp_all add: round_half_even_def)

lemma round64_at_44: "round64 (133162433782090816 / 2152120141932781) = Num (8708132091985919 / 140737488355328)"
  by (rule round64_eq [where e = "5" and m = 8708132091985919]) (simp_all add: round_half_even_def)

lemma round64_at_45: "round64 (16) = Num (16)"
  by (rule round64_eq [where e = "4" and m = 4503599627370496]) (simp_all add: round_half_even_def)

lemma round64_at_46: "round64 (7 / 10) = Num (3152519739159347 / 4503599627370496)"
  by (rule round64_eq [where e = "- 1" and m = 6305039478318694]) (simp_all add: round_half_even_def)

lemma round64_at_47: "round64 (3) = Num (3)"
  by (rule round64_eq [where e = "1" and m = 6755399441055744]) (simp_all add: round_half_even_def)

lemma round64_at_48: "round64 (180) = Num (180)"
  by (rule round64_eq [where e = "7" and m = 6333186975989760]) (simp_all add: round_half_even_def)

lemma round64_at_49: "round64 (90 / 37) = Num (2738675449076653 / 1125899906842624)"
  by (rule round64_eq [where e = "1" and m = 5477350898153306]) (simp_all add: round_half_even_def)

lemma round64_at_50: "round64 (83 / 100000) = Num (956924848823683 / 1152921504606846976)"
  by (rule round64_eq [where e = "- 11" and m = 7655398790589464]) (simp_all add: round_half_even_def)

lemma round64_at_51: "round64 (2620706590084808322295548772999 / 1298074214633706907132624082305024) = Num (2327655037679229 / 1152921504606846976)"
  by (rule round64_eq [where e = "- 9" and m = 4655310075358458]) (simp_all add: round_half_even_def)

lemma round64_at_52: "round64 (11 / 2500) = Num (5072854620270127 / 1152921504606846976)"
  by (rule round64_eq [where e = "- 8" and m = 5072854620270127]) (simp_all add: round_half_even_def)

lemma round64_at_53: "round64 (1850127414487339 / 288230376151711744) = Num (1850127414487339 / 288230376151711744)"
  by (rule round64_eq [where e = "- 8" and m = 7400509657949356]) (simp_all add: round_half_even_def)

lemma round64_at_54: "round64 (133 / 74) = Num (2023576859595527 / 1125899906842624)"
  by (rule round64_eq [where e = "0" and m = 8094307438382108]) (simp_all add: round_half_even_def)

lemma round64_at_55: "round64 (2023576859595527 / 27021597764222976) = Num (5396204958921405 / 72057594037927936)"
  by (rule round64_eq [where e = "- 4" and m = 5396204958921405]) (simp_all add: round_half_even_def)

lemma round64_at_56: "round64 (5832563194131183016200835007633 / 1298074214633706907132624082305024) = Num (5180356760564549 / 1152921504606846976)"
  by (rule round64_eq [where e = "- 8" and m = 5180356760564549]) (simp_all add: round_half_even_def)

lemma round64_at_57: "round64 (86339279342742480 / 5180356760564549) = Num (2345624805922133 / 140737488355328)"
  by (rule round64_eq [where e = "4" and m = 4691249611844266]) (simp_all add: round_half_even_def)

lemma round64_at_58: "round64 (7036874417766399 / 17592186044416) = Num (7036874417766399 / 17592186044416)"
  by (rule round64_eq [where e = "8" and m = 7036874417766399]) (simp_all add: round_half_even_def)

lemma round64_at_59: "round64 (7036874417766400 / 7036874417766399) = Num (4503599627370497 / 4503599627370496)"
  by (rule round64_eq [where e = "0" and m = 4503599627370497]) (simp_all add: round_half_even_def)

lemma round64_at_60: "round64 (598978750440276101 / 4503599627370496) = Num (4679521487814657 / 35184372088832)"
  by (rule round64_eq [where e = "7" and m = 4679521487814657]) (simp_all add: round_half_even_def)

lemma round64_at_61: "round64 (4 / 5) = Num (3602879701896397 / 4503599627370496)"
  by (rule round64_eq [where e = "- 1" and m = 7205759403792794]) (simp_all add: round_half_even_def)

lemma round64_at_62: "round64 (10808639105689191 / 562949953421312) = Num (1351079888211149 / 70368744177664)"
  by (rule round64_eq [where e = "4" and m = 5404319552844596]) (simp_all add: round_half_even_def)

lemma round64_at_63: "round64 (48) = Num (48)"
  by (rule round64_eq [where e = "5" and m = 6755399441055744]) (simp_all add: round_half_even_def)

lemma round64_at_64: "round64 (0) = Num (0)"
  by (rule round64_eq [where e = "- 1022" and m = 0]) (simp_all add: round_half_even_def)

lemma round64_at_65: "round64 (5072854620270127 / 1152921504606846976) = Num (5072854620270127 / 1152921504606846976)"
  by (rule round64_eq [where e = "- 8" and m = 5072854620270127]) (simp_all add: round_half_even_def)

lemma round64_at_66: "round64 (1 / 75) = Num (7686143364045647 / 576460752303423488)"
  by (rule round64_eq [where e = "- 7" and m = 7686143364045647]) (simp_all add: round_half_even_def)

lemma round64_at_67: "round64 (7686143364045647 / 5764607523034234880) = Num (3074457345618259 / 2305843009213693952)"
  by (rule round64_eq [where e = "- 10" and m = 6148914691236518]) (simp_all add: round_half_even_def)

lemma round64_at_68: "round64 (15992274324287269044713036927069 / 5192296858534827628530496329220096) = Num (7101996468378177 / 2305843009213693952)"
  by (rule round64_eq [where e = "- 9" and m = 7101996468378177]) (simp_all add: round_half_even_def)

lemma round64_at_69: "round64 (3074457345618259 / 7101996468378177) = Num (7798440913195665 / 18014398509481984)"
  by (rule round64_eq [where e = "- 2" and m = 7798440913195665]) (simp_all add: round_half_even_def)

lemma round64_at_70: "round64 (23395322739586995 / 2251799813685248) = Num (5848830684896749 / 562949953421312)"
  by (rule round64_eq [where e = "3" and m = 5848830684896749]) (simp_all add: round_half_even_def)

lemma round64_at_71: "round64 (225179981368524800 / 5848830684896749) = Num (5418393301680127 / 140737488355328)"
  by (rule round64_eq [where e = "5" and m = 5418393301680127]) (simp_all add: round_half_even_def)

lemma round64_at_72: "round64 (5418393301680127 / 140737488355328) = Num (5418393301680127 / 140737488355328)"
  by (rule round64_eq [where e = "5" and m = 5418393301680127]) (simp_all add: round_half_even_def)

lemma round64_at_73: "round64 (18014398509481985 / 2251799813685248) = Num (8)"
  by (rule round64_eq [where e = "3" and m = 4503599627370496]) (simp_all add: round_half_even_def)

lemma round64_at_74: "round64 (20) = Num (20)"
  by (rule round64_eq [where e = "4" and m = 5629499534213120]) (simp_all add: round_half_even_def)

lemma round64_at_75: "round64 (2345624805922133 / 140737488355328) = Num (2345624805922133 / 140737488355328)"
  by (rule round64_eq [where e = "4" and m = 4691249611844266]) (simp_all add: round_half_even_def)

lemma round64_at_76: "round64 (7 / 100) = Num (1261007895663739 / 18014398509481984)"
  by (rule round64_eq [where e = "- 4" and m = 5044031582654956]) (simp_all add: round_half_even_def)

lemma round64_at_77: "round64 (18915118434956085 / 4503599627370496) = Num (4728779608739021 / 1125899906842624)"
  by (rule round64_eq [where e = "2" and m = 4728779608739021]) (simp_all add: round_half_even_def)

lemma round64_at_78: "round64 (4728779608739021 / 78812993478983680) = Num (8646911284551353 / 144115188075855872)"
  by (rule round64_eq [where e = "- 5" and m = 8646911284551353]) (simp_all add: round_half_even_def)

lemma round64_at_79: "round64 (8274444273761102045312456093099 / 166153499473114484112975882535043072) = Num (3674591419482943 / 73786976294838206464)"
  by (rule round64_eq [where e = "- 15" and m = 7349182838965886]) (simp_all add: round_half_even_def)

lemma round64_at_80: "round64 (328337287116771071 / 73786976294838206464) = Num (1282567527799887 / 288230376151711744)"
  by (rule round64_eq [where e = "- 8" and m = 5130270111199548]) (simp_all add: round_half_even_def)

lemma round64_at_81: "round64 (200 / 7) = Num (8042142191733029 / 281474976710656)"
  by (rule round64_eq [where e = "4" and m = 8042142191733029]) (simp_all add: round_half_even_def)

lemma round64_at_82: "round64 (8042142191733029 / 6755399441055744) = Num (5361428127822019 / 4503599627370496)"
  by (rule round64_eq [where e = "0" and m = 5361428127822019]) (simp_all add: round_half_even_def)

lemma round64_at_83: "round64 (4043319448193948297321821593789 / 1298074214633706907132624082305024) = Num (7182378155679367 / 2305843009213693952)"
  by (rule round64_eq [where e = "- 9" and m = 7182378155679367]) (simp_all add: round_half_even_def)

lemma round64_at_84: "round64 (2745051201444873728 / 7182378155679367) = Num (3361800951616567 / 8796093022208)"
  by (rule round64_eq [where e = "8" and m = 6723601903233134]) (simp_all add: round_half_even_def)

lemma round64_at_85: "round64 (10085402854849701 / 1099511627776) = Num (2521350713712425 / 274877906944)"
  by (rule round64_eq [where e = "13" and m = 5042701427424850]) (simp_all add: round_half_even_def)

lemma round64_at_86: "round64 (2521350713712425 / 6597069766656) = Num (6723601903233133 / 17592186044416)"
  by (rule round64_eq [where e = "8" and m = 6723601903233133]) (simp_all add: round_half_even_def)

lemma round64_at_87: "round64 (6597069766656 / 100854028548497) = Num (4713435664664585 / 72057594037927936)"
  by (rule round64_eq [where e = "- 4" and m = 4713435664664585]) (simp_all add: round_half_even_def)

lemma round64_at_88: "round64 (589179458083073125 / 4503599627370496) = Num (4602964516274009 / 35184372088832)"
  by (rule round64_eq [where e = "7" and m = 4602964516274009]) (simp_all add: round_half_even_def)

lemma round64_at_89: "round64 (7 / 5) = Num (3152519739159347 / 2251799813685248)"
  by (rule round64_eq [where e = "0" and m = 6305039478318694]) (simp_all add: round_half_even_def)

lemma round64_at_90: "round64 (3152519739159347 / 54043195528445952) = Num (8406719304424925 / 144115188075855872)"
  by (rule round64_eq [where e = "- 5" and m = 8406719304424925]) (simp_all add: round_half_even_def)

lemma round64_at_91: "round64 (134507508870798800 / 7182378155679367) = Num (5271303892134777 / 281474976710656)"
  by (rule round64_eq [where e = "4" and m = 5271303892134777]) (simp_all add: round_half_even_def)

lemma round64_at_92: "round64 (15813911676404331 / 35184372088832) = Num (3953477919101083 / 8796093022208)"
  by (rule round64_eq [where e = "8" and m = 7906955838202166]) (simp_all add: round_half_even_def)

lemma round64_at_93: "round64 (3953477919101083 / 211106232532992) = Num (5271303892134777 / 281474976710656)"
  by (rule round64_eq [where e = "4" and m = 5271303892134777]) (simp_all add: round_half_even_def)

lemma round64_at_94: "round64 (15762598695796735 / 1125899906842624) = Num (14)"
  by (rule round64_eq [where e = "3" and m = 7881299347898368]) (simp_all add: round_half_even_def)

lemma round64_at_95: "round64 (8977972694599209 / 144115188075855872) = Num (8977972694599209 / 144115188075855872)"
  by (rule round64_eq [where e = "- 5" and m = 8977972694599209]) (simp_all add: round_half_even_def)

lemma round64_at_96: "round64 (314229044310972315 / 72057594037927936) = Num (2454914408679471 / 562949953421312)"
  by (rule round64_eq [where e = "2" and m = 4909828817358942]) (simp_all add: round_half_even_def)

lemma round64_at_97: "round64 (7364743226038413 / 70368744177664) = Num (7364743226038413 / 70368744177664)"
  by (rule round64_eq [where e = "6" and m = 7364743226038413]) (simp_all add: round_half_even_def)

lemma round64_at_98: "round64 (11 / 7) = Num (7077085128725065 / 4503599627370496)"
  by (rule round64_eq [where e = "0" and m = 7077085128725065]) (simp_all add: round_half_even_def)

lemma round64_at_99: "round64 (7077085128725065 / 108086391056891904) = Num (4718056752483377 / 72057594037927936)"
  by (rule round64_eq [where e = "- 4" and m = 4718056752483377]) (simp_all add: round_half_even_def)

lemma round64_at_100: "round64 (150977816079468064 / 7182378155679367) = Num (5916769674845159 / 281474976710656)"
  by (rule round64_eq [where e = "4" and m = 5916769674845159]) (simp_all add: round_half_even_def)

lemma round64_at_101: "round64 (17750309024535477 / 35184372088832) = Num (4437577256133869 / 8796093022208)"
  by (rule round64_eq [where e = "8" and m = 8875154512267738]) (simp_all add: round_half_even_def)

lemma round64_at_102: "round64 (4437577256133869 / 211106232532992) = Num (5916769674845159 / 281474976710656)"
  by (rule round64_eq [where e = "4" and m = 5916769674845159]) (simp_all add: round_half_even_def)

lemmas round64_facts =
  round64_at_0 round64_at_1 round64_at_2 round64_at_3 round64_at_4 round64_at_5 round64_at_6
  round64_at_7 round64_at_8 round64_at_9 round64_at_10 round64_at_11 round64_at_12
  round64_at_13 round64_at_14 round64_at_15 round64_at_16 round64_at_17 round64_at_18
  round64_at_19 round64_at_20 round64_at_21 round64_at_22 round64_at_23 round64_at_24
  round64_at_25 round64_at_26 round64_at_27 round64_at_28 round64_at_29 round64_at_30
  round64_at_31 round64_at_32 round64_at_33 round64_at_34 round64_at_35 round64_at_36
  round64_at_37 round64_at_38 round64_at_39 round64_at_40 round64_at_41 round64_at_42
  round64_at_43 round64_at_44 round64_at_45 round64_at_46 round64_at_47 round64_at_48
  round64_at_49 round64_at_50 round64_at_51 round64_at_52 round64_at_53 round64_at_54
  round64_at_55 round64_at_56 round64_at_57 round64_at_58 round64_at_59 round64_at_60
  round64_at_61 round64_at_62 round64_at_63 round64_at_64 round64_at_65 round64_at_66
  round64_at_67 round64_at_68 round64_at_69 round64_at_70 round64_at_71 round64_at_72
  round64_at_73 round64_at_74 round64_at_75 round64_at_76 round64_at_77 round64_at_78
  round64_at_79 round64_at_80 round64_at_81 round64_at_82 round64_at_83 round64_at_84
  round64_at_85 round64_at_86 round64_at_87 round64_at_88 round64_at_89 round64_at_90
  round64_at_91 round64_at_92 round64_at_93 round64_at_94 round64_at_95 round64_at_96
  round64_at_97 round64_at_98 round64_at_99 round64_at_100 round64_at_101 round64_at_102

section \<open>The binary64 reading: the program\<close>

lemma positive_not_le: "Num 0 < a \<Longrightarrow> \<not> a \<le> Num 0"
  by (cases a) simp_all

lemma Math_max_not_below: "\<not> Math_max (Num 0) c < Num 0"
  by (cases c) simp_all

lemma calculateClearance64_spec:
  assumes "Num 0 < weight" "Num 0 < creatinine"
  shows "calculateClearance64 weight ageValue u creatinine
           = Inr (spec_clearance64 weight ageValue u creatinine)"
  using positive_not_le [OF assms(1)] positive_not_le [OF assms(2)]
  by (cases u)
    (simp_all add: calculateClearance64_def spec_clearance64_def spec_pediatric64_def
      spec_k64_def spec_height64_def spec_ageYears64_def spec_ageInDays64_def Let_def)

lemma evaluate_dosing64_table:
  assumes "ab \<noteq> Vancomycin_continuous"
  shows "evaluate_dosing64 ab v dose interval weight =
    Inr (spec_status64 ab (Cmax_v v) (Cmin_v v) (auc_v v),
         spec_suggestion64 ab dose interval (Cmax_v v) (Cmin_v v) (auc_v v))"
  using assms
  by (cases ab)
    (simp_all add: evaluate_dosing64_def Let_def spec_status64_def spec_suggestion64_def
      spec_insufficient64_def spec_excessive64_def increase_text_def reduce_text_def
      dose_or_interval_def Insuficiente_def Excessiva_def Adequada_def)

lemma evaluate_dosing64_continuous:
  "evaluate_dosing64 Vancomycin_continuous v dose interval weight =
    Inr (spec_status_continuous64 (Cmax_v v) (auc_v v),
         spec_suggestion_continuous64 dose weight (Vd v) (Ke v) (Cmax_v v) (auc_v v))"
  by (simp add: evaluate_dosing64_def Let_def spec_status_continuous64_def
      spec_suggestion_continuous64_def daily_increase_text_def daily_reduce_text_def
      steady_text_def Insuficiente_def Excessiva_def Adequada_def Fora_da_faixa_def)

lemma pk_switch64_continuous:
  "Vd (pk_switch64 fexp Vancomycin_continuous dose interval weight clearance) = lit64 0.7"
  "Ke (pk_switch64 fexp Vancomycin_continuous dose interval weight clearance)
     = spec_Ke64 Vancomycin_continuous clearance weight"
  "t1_2_v (pk_switch64 fexp Vancomycin_continuous dose interval weight clearance) = None"
  by (simp_all add: pk_switch64_def spec_Ke64_def Let_def)

lemma pk_switch64_half_life:
  assumes "ab \<noteq> Vancomycin_continuous"
  shows "t1_2_v (pk_switch64 fexp ab dose interval weight clearance)
           = Some (div64 (lit64 0.693) (spec_Ke64 ab clearance weight))"
  using assms
  by (cases ab) (simp_all add: pk_switch64_def intermittent_case64_def spec_Ke64_def Let_def)

lemma evaluate_dosing64_Inr: "\<exists>st sg. evaluate_dosing64 ab v d i w = Inr (st, sg)"
  by (cases ab) (simp_all add: evaluate_dosing64_def Let_def)

lemma simulatePK64_result:
  assumes "\<not> (d \<le> Num 0 \<or> i \<le> Num 0)"
    and "array_length (Math_ceil (mul64 i (Num 2))) = Inr n"
    and "evaluate_dosing64 ab (pk_switch64 fexp ab d i w c) d i w = Inr (st, sg)"
    and "t1_2_v (pk_switch64 fexp ab d i w c) = Some h"
  shows "\<exists>ts cs. simulatePK64 fexp ab d i w c l lt rt =
    Inr \<lparr>timePoints = ts, concentrations = cs,
         Cmax = toFixed2 (Cmax_v (pk_switch64 fexp ab d i w c)),
         Cmin = toFixed2 (Cmin_v (pk_switch64 fexp ab d i w c)),
         auc = toFixed2 (auc_v (pk_switch64 fexp ab d i w c)),
         t1_2 = toFixed2 h, status = st, suggestion = sg\<rparr>"
  using assms
  by (simp add: simulatePK64_def Let_def split: option.splits prod.splits)

lemma simulatePK64_Inr:
  assumes "simulatePK64 fexp ab d i w c l lt rt = Inr r"
  shows "\<not> (d \<le> Num 0 \<or> i \<le> Num 0)"
    and "\<exists>n. array_length (Math_ceil (mul64 i (Num 2))) = Inr n"
    and "evaluate_dosing64 ab (pk_switch64 fexp ab d i w c) d i w = Inr (status r, suggestion r)"
    and "\<exists>h. t1_2_v (pk_switch64 fexp ab d i w c) = Some h \<and> t1_2 r = toFixed2 h"
proof -
  show g: "\<not> (d \<le> Num 0 \<or> i \<le> Num 0)"
    using assms by (auto simp: simulatePK64_def)
  obtain n where n: "array_length (Math_ceil (mul64 i (Num 2))) = Inr n"
    using assms g
    by (cases "array_length (Math_ceil (mul64 i (Num 2)))") (auto simp: simulatePK64_def Let_def)
  then show "\<exists>n. array_length (Math_ceil (mul64 i (Num 2))) = Inr n" by blast
  obtain st sg where e: "evaluate_dosing64 ab (pk_switch64 fexp ab d i w c) d i w = Inr (st, sg)"
    using evaluate_dosing64_Inr by blast
  obtain h where h: "t1_2_v (pk_switch64 fexp ab d i w c) = Some h"
    using assms g n e
    by (cases "t1_2_v (pk_switch64 fexp ab d i w c)")
      (auto simp: simulatePK64_def Let_def split: prod.splits)
  from simulatePK64_result [OF g n e h, of l lt rt] assms
  have "status r = st" "suggestion r = sg" "t1_2 r = toFixed2 h" by auto
  with e h show "evaluate_dosing64 ab (pk_switch64 fexp ab d i w c) d i w
      = Inr (status r, suggestion r)"
    and "\<exists>h. t1_2_v (pk_switch64 fexp ab d i w c) = Some h \<and> t1_2 r = toFixed2 h"
    by simp_all
qed

lemma simulatePK64_returns:
  assumes "Num 0 < d" "Num 0 < i" "Math_ceil (mul64 i (Num 2)) \<le> Num 4294967295"
    and "ab \<noteq> Vancomycin_continuous"
  shows "\<exists>r. simulatePK64 fexp ab d i w c l lt rt = Inr r"
proof -
  have g: "\<not> (d \<le> Num 0 \<or> i \<le> Num 0)"
    using positive_not_le [OF assms(1)] positive_not_le [OF assms(2)] by simp
  obtain n where n: "array_length (Math_ceil (mul64 i (Num 2))) = Inr n"
    using assms(3) by (cases "Math_ceil (mul64 i (Num 2))") auto
  obtain st sg where e: "evaluate_dosing64 ab (pk_switch64 fexp ab d i w c) d i w = Inr (st, sg)"
    using evaluate_dosing64_Inr by blast
  note h = pk_switch64_half_life [OF assms(4), of fexp d i w c]
  from simulatePK64_result [OF g n e h, of l lt rt] show ?thesis by blast
qed

lemma simulatePK64_continuous:
  "simulatePK64 fexp Vancomycin_continuous d i w c l lt rt \<noteq> Inr r"
proof
  assume "simulatePK64 fexp Vancomycin_continuous d i w c l lt rt = Inr r"
  from simulatePK64_Inr(4) [OF this] show False by (simp add: pk_switch64_continuous)
qed

lemma Math_round_nearest:
  "\<exists>n. Math_round (Num x) = Num (of_int n) \<and> \<bar>of_int n - x\<bar> \<le> 1 / 2"
proof -
  have "\<bar>of_int \<lfloor>x + 1 / 2\<rfloor> - x\<bar> \<le> 1 / 2" by linarith
  then show ?thesis by auto
qed

lemma toFixed2_nearest:
  assumes "\<bar>x\<bar> < 10 ^ 21"
  shows "\<exists>n. toFixed2 (Num x) = Decimal2 (x < 0) n \<and> \<bar>real n / 100 - \<bar>x\<bar>\<bar> \<le> 1 / 200"
proof -
  have "0 \<le> \<lfloor>\<bar>x\<bar> * 100 + 1 / 2\<rfloor>" by simp
  then have "real (nat \<lfloor>\<bar>x\<bar> * 100 + 1 / 2\<rfloor>) = of_int \<lfloor>\<bar>x\<bar> * 100 + 1 / 2\<rfloor>" by simp
  then have "\<bar>real (nat \<lfloor>\<bar>x\<bar> * 100 + 1 / 2\<rfloor>) / 100 - \<bar>x\<bar>\<bar> \<le> 1 / 200" by linarith
  then show ?thesis using assms by auto
qed


lemma auc_133:
  "auc_v (pk_switch64 fexp Vancomycin_intermittent (Num 133) (Num 24) (Num 74) (Num 3000))
     = Num (7036874417766399 / 2 ^ 44)"
  by (simp add: pk_switch64_def intermittent_case64_def Let_def add64_def sub64_def mul64_def
      div64_def lit64_def round64_facts)

lemma auc_1:
  "auc_v (pk_switch64 fexp Vancomycin_intermittent (Num 1) (Num 10) (Num 75) (Num 0))
     = Num (5848830684896749 / 2 ^ 49)"
  by (simp add: pk_switch64_def intermittent_case64_def Let_def add64_def sub64_def mul64_def
      div64_def lit64_def round64_facts)

lemma pk_switch64_continuous_eval:
  "pk_switch64 fexp Vancomycin_continuous dose interval weight clearance =
     (let crCl = div64 (mul64 (div64 clearance (Num 1000)) (Num 60)) weight;
          ke = add64 (mul64 crCl (lit64 0.00083)) (lit64 0.0044);
          a = mul64 (div64 (div64 (div64 dose weight) (Num 24)) (mul64 ke (lit64 0.7))) (Num 24)
      in \<lparr>Vd = lit64 0.7, Ke = ke, t1_2_v = None, infusionTime = Num 24,
          Cmax_v = div64 a (Num 24), Cmin_v = div64 a (Num 24), auc_v = a\<rparr>)"
  by (simp add: pk_switch64_def Let_def)


section \<open>Claims\<close>

text \<open>
  C1. For weight, dose and interval positive and a clearance that is not negative, the
  \<^verbatim>\<open>switch\<close> of \<^verbatim>\<open>simulatePK\<close> first normalises the clearance to
  \<open>(clearance / 1000) * 60 / weight\<close> and then assigns the constants and formulas of
  the specification: \<open>Vd\<close>, the infusion time, \<open>Ke\<close>, \<open>Cmax\<close>, \<open>Cmin\<close> and the
  AUC, for the intermittent drugs and for continuous vancomycin, all as finite numbers.
\<close>

theorem pk_switch_formulas:
  assumes "0 < weight" "0 < dose" "0 < interval" "0 \<le> clearance"
  shows "Vd (pk_switch ab dose interval weight clearance) = Num (spec_Vd ab)
    \<and> infusionTime (pk_switch ab dose interval weight clearance) = Num (spec_infusionTime ab)
    \<and> Ke (pk_switch ab dose interval weight clearance) = Num (spec_Ke ab clearance weight)
    \<and> Cmax_v (pk_switch ab dose interval weight clearance)
        = Num (spec_Cmax ab dose interval weight clearance)
    \<and> Cmin_v (pk_switch ab dose interval weight clearance)
        = Num (spec_Cmin ab dose interval weight clearance)
    \<and> auc_v (pk_switch ab dose interval weight clearance)
        = Num (spec_auc ab dose interval weight clearance)"
  by (simp add: pk_switch_valid [OF assms(1) assms(3) assms(4)])

theorem pk_switch_formulas_witness:
  "(0::real) < 70 \<and> (0::real) < 420 \<and> (0::real) < 8 \<and> (0::real) \<le> 70
   \<and> Vd (pk_switch Gentamicin 420 8 70 70) = Num 0.25
   \<and> infusionTime (pk_switch Gentamicin 420 8 70 70) = Num 0.5
   \<and> Ke (pk_switch Gentamicin 420 8 70 70) = Num 0.010174
   \<and> Cmax_v (pk_switch Gentamicin 420 8 70 70) = Num (6 / (0.25 * (1 - exp (- 0.005087))))
   \<and> auc_v (pk_switch Gentamicin 420 8 70 70) = Num (0.75 / 0.0025435 * 24)"
  using pk_switch_formulas [of 70 420 8 70 Gentamicin]
  by (simp add: spec_Vd_def spec_infusionTime_def spec_Ke_def spec_crCl_def spec_Cmax_def
      spec_auc_def)

text \<open>
  C2. The claim fails on the code. With continuous vancomycin the variable \<^verbatim>\<open>t1_2\<close> is
  never assigned, so \<^verbatim>\<open>t1_2.toFixed(2)\<close> throws a \<^verbatim>\<open>TypeError\<close>; and for every drug
  the sample at time 0 divides by \<open>Vd * (1 - exp 0) = 0\<close> and is \<^verbatim>\<open>Infinity\<close>.
\<close>

theorem submit_runtime_failures:
  "submit 70 40 Years 1 Vancomycin_continuous 2000 24 None None None = Inl TypeError
   \<and> map_sum id (hd \<circ> concentrations) (submit 70 40 Years 1 Gentamicin 420 8 None None None)
       = Inr PosInf"
proof -
  have c: "calculateClearance 70 40 Years 1 = Inr (875 / 9)"
    by (simp add: calculateClearance_def Let_def)
  have 1: "submit 70 40 Years 1 Vancomycin_continuous 2000 24 None None None = Inl TypeError"
    by (simp add: submit_def c simulatePK_continuous)
  have "simulatePK Gentamicin 420 8 70 (875 / 9) None None None
     = Inr \<lparr>timePoints = curve_times 8
           @ map fst (overlay (pk_switch Gentamicin 420 8 70 (875 / 9)) 8 None None None),
         concentrations =
           map (curve_point (pk_switch Gentamicin 420 8 70 (875 / 9)) 420 70) (curve_times 8)
           @ map snd (overlay (pk_switch Gentamicin 420 8 70 (875 / 9)) 8 None None None),
         Cmax = toFixed2 (Num (spec_Cmax Gentamicin 420 8 70 (875 / 9))),
         Cmin = toFixed2 (Num (spec_Cmin Gentamicin 420 8 70 (875 / 9))),
         auc = toFixed2 (Num (spec_auc Gentamicin 420 8 70 (875 / 9))),
         t1_2 = toFixed2 (Num (0.693 / spec_Ke Gentamicin (875 / 9) 70)),
         status = spec_status Gentamicin (spec_Cmax Gentamicin 420 8 70 (875 / 9))
                    (spec_Cmin Gentamicin 420 8 70 (875 / 9))
                    (spec_auc Gentamicin 420 8 70 (875 / 9)),
         suggestion = spec_suggestion Gentamicin 420 8
                    (spec_Cmax Gentamicin 420 8 70 (875 / 9))
                    (spec_Cmin Gentamicin 420 8 70 (875 / 9))
                    (spec_auc Gentamicin 420 8 70 (875 / 9))\<rparr>"
    by (rule simulatePK_valid) simp_all
  moreover have "hd (map (curve_point (pk_switch Gentamicin 420 8 70 (875 / 9)) 420 70)
      (curve_times 8)) = PosInf"
    using curve_times_Cons [of 8] curve_point_zero [of 70 420 8 "875 / 9" Gentamicin] by simp
  ultimately have 2: "map_sum id (hd \<circ> concentrations)
      (submit 70 40 Years 1 Gentamicin 420 8 None None None) = Inr PosInf"
    using curve_times_Cons [of 8] by (simp add: submit_def c)
  from 1 2 show ?thesis by blast
qed

text \<open>
  C3. In the binary64 reading, for every antibiotic other than continuous vancomycin the
  block that evaluates the dosing follows the first-match table of the specification: on
  the AUC and \<open>Cmin\<close> for intermittent vancomycin, on \<open>Cmax\<close> and \<open>Cmin\<close> against the
  peak and trough ranges for the aminoglycosides, with the suggested dose and interval
  computed in doubles and then rounded to the nearest integer. Every result
  \<^verbatim>\<open>simulatePK\<close> returns carries that status and suggestion for the values its
  \<^verbatim>\<open>switch\<close> computed, and a result is returned whenever dose and interval are positive
  and the curve has at most \<open>2^32 - 1\<close> samples.
\<close>

theorem dose_evaluation_table64:
  "(ab \<noteq> Vancomycin_continuous \<longrightarrow>
      evaluate_dosing64 ab v dose interval weight
        = Inr (spec_status64 ab (Cmax_v v) (Cmin_v v) (auc_v v),
               spec_suggestion64 ab dose interval (Cmax_v v) (Cmin_v v) (auc_v v)))
   \<and> (\<forall>r. simulatePK64 fexp ab dose interval weight clearance l lt rt = Inr r \<longrightarrow>
          ab \<noteq> Vancomycin_continuous
        \<and> status r = spec_status64 ab
            (Cmax_v (pk_switch64 fexp ab dose interval weight clearance))
            (Cmin_v (pk_switch64 fexp ab dose interval weight clearance))
            (auc_v (pk_switch64 fexp ab dose interval weight clearance))
        \<and> suggestion r = spec_suggestion64 ab dose interval
            (Cmax_v (pk_switch64 fexp ab dose interval weight clearance))
            (Cmin_v (pk_switch64 fexp ab dose interval weight clearance))
            (auc_v (pk_switch64 fexp ab dose interval weight clearance)))
   \<and> (Num 0 < dose \<and> Num 0 < interval \<and> Math_ceil (mul64 interval (Num 2)) \<le> Num 4294967295
        \<and> ab \<noteq> Vancomycin_continuous \<longrightarrow>
        (\<exists>r. simulatePK64 fexp ab dose interval weight clearance l lt rt = Inr r))
   \<and> (\<exists>n. Math_round (Num x) = Num (of_int n) \<and> \<bar>of_int n - x\<bar> \<le> 1 / 2)"
proof -
  have 1: "ab \<noteq> Vancomycin_continuous \<longrightarrow>
      evaluate_dosing64 ab v dose interval weight
        = Inr (spec_status64 ab (Cmax_v v) (Cmin_v v) (auc_v v),
               spec_suggestion64 ab dose interval (Cmax_v v) (Cmin_v v) (auc_v v))"
    using evaluate_dosing64_table by blast
  have 2: "ab \<noteq> Vancomycin_continuous
        \<and> status r = spec_status64 ab
            (Cmax_v (pk_switch64 fexp ab dose interval weight clearance))
            (Cmin_v (pk_switch64 fexp ab dose interval weight clearance))
            (auc_v (pk_switch64 fexp ab dose interval weight clearance))
        \<and> suggestion r = spec_suggestion64 ab dose interval
            (Cmax_v (pk_switch64 fexp ab dose interval weight clearance))
            (Cmin_v (pk_switch64 fexp ab dose interval weight clearance))
            (auc_v (pk_switch64 fexp ab dose interval weight clearance))"
    if r: "simulatePK64 fexp ab dose interval weight clearance l lt rt = Inr r" for r
  proof -
    have n: "ab \<noteq> Vancomycin_continuous"
      using r simulatePK64_continuous by blast
    from simulatePK64_Inr(3) [OF r] evaluate_dosing64_table [OF n] show ?thesis
      using n by simp
  qed
  have 3: "Num 0 < dose \<and> Num 0 < interval \<and> Math_ceil (mul64 interval (Num 2)) \<le> Num 4294967295
        \<and> ab \<noteq> Vancomycin_continuous \<longrightarrow>
        (\<exists>r. simulatePK64 fexp ab dose interval weight clearance l lt rt = Inr r)"
    using simulatePK64_returns by blast
  from 1 2 3 Math_round_nearest [of x] show ?thesis by blast
qed

text \<open>At intermittent vancomycin, dose 133, interval 24, weight 74 and clearance 3000 the
  AUC is the double 399.99999999999994, below 400. At dose 1, interval 10, weight 75 and
  clearance 0 the suggested dose is the double 38.49999999999999 rounded, which is 38.\<close>

theorem dose_evaluation_table64_witness:
  "(\<forall>fexp.
     (\<exists>r. simulatePK64 fexp Vancomycin_intermittent (Num 133) (Num 24) (Num 74) (Num 3000)
            None None None = Inr r
        \<and> auc_v (pk_switch64 fexp Vancomycin_intermittent (Num 133) (Num 24) (Num 74) (Num 3000))
            = Num (7036874417766399 / 2 ^ 44)
        \<and> status r = ''Insuficiente''
        \<and> suggestion r = [Lit ''Aumentar dose para '', Val (Num 133),
                          Lit '' mg ou reduzir intervalo para '', Val (Num 19), Lit '' h''])
   \<and> (\<exists>r. simulatePK64 fexp Vancomycin_intermittent (Num 1) (Num 10) (Num 75) (Num 0)
            None None None = Inr r
        \<and> status r = ''Insuficiente''
        \<and> suggestion r = [Lit ''Aumentar dose para '', Val (Num 38),
                          Lit '' mg ou reduzir intervalo para '', Val (Num 8), Lit '' h'']))
   \<and> mul64 (Num 1) (div64 (Num 400) (Num (5848830684896749 / 2 ^ 49)))
       = Num (5418393301680127 / 2 ^ 47)
   \<and> Math_round (Num (5418393301680127 / 2 ^ 47)) = Num 38
   \<and> (7036874417766399 / 2 ^ 44 :: real) < 400"
proof (intro allI conjI)
  show "mul64 (Num 1) (div64 (Num 400) (Num (5848830684896749 / 2 ^ 49)))
       = Num (5418393301680127 / 2 ^ 47)"
    by (simp add: mul64_def div64_def round64_facts)
  show "Math_round (Num (5418393301680127 / 2 ^ 47)) = Num 38" by simp
  show "(7036874417766399 / 2 ^ 44 :: real) < 400" by simp
next
  fix fexp
  note ev = spec_status64_def spec_suggestion64_def spec_insufficient64_def
    add64_def sub64_def mul64_def div64_def lit64_def round64_facts
  note t = dose_evaluation_table64 [where ab = Vancomycin_intermittent and dose = "Num 133" and interval = "Num 24"
      and fexp = fexp and weight = "Num 74" and clearance = "Num 3000" and l = None
      and lt = None and rt = None]
  have "Num 0 < Num 133 \<and> Num 0 < Num 24 \<and> Math_ceil (mul64 (Num 24) (Num 2)) \<le> Num 4294967295
      \<and> Vancomycin_intermittent \<noteq> Vancomycin_continuous"
    by (simp add: ev)
  with t obtain r where r: "simulatePK64 fexp Vancomycin_intermittent (Num 133) (Num 24) (Num 74)
      (Num 3000) None None None = Inr r"
    by blast
  with t have "status r = ''Insuficiente''"
    and "suggestion r = [Lit ''Aumentar dose para '', Val (Num 133),
           Lit '' mg ou reduzir intervalo para '', Val (Num 19), Lit '' h'']"
    by (simp_all add: auc_133 ev)
  with r auc_133 show "\<exists>r. simulatePK64 fexp Vancomycin_intermittent (Num 133) (Num 24) (Num 74)
      (Num 3000) None None None = Inr r
        \<and> auc_v (pk_switch64 fexp Vancomycin_intermittent (Num 133) (Num 24) (Num 74) (Num 3000))
            = Num (7036874417766399 / 2 ^ 44)
        \<and> status r = ''Insuficiente''
        \<and> suggestion r = [Lit ''Aumentar dose para '', Val (Num 133),
                          Lit '' mg ou reduzir intervalo para '', Val (Num 19), Lit '' h'']"
    by blast
next
  fix fexp
  note ev = spec_status64_def spec_suggestion64_def spec_insufficient64_def
    add64_def sub64_def mul64_def div64_def lit64_def round64_facts
  note t = dose_evaluation_table64 [where ab = Vancomycin_intermittent and dose = "Num 1" and interval = "Num 10"
      and fexp = fexp and weight = "Num 75" and clearance = "Num 0" and l = None
      and lt = None and rt = None]
  have "Num 0 < Num 1 \<and> Num 0 < Num 10 \<and> Math_ceil (mul64 (Num 10) (Num 2)) \<le> Num 4294967295
      \<and> Vancomycin_intermittent \<noteq> Vancomycin_continuous"
    by (simp add: ev)
  with t obtain r where r: "simulatePK64 fexp Vancomycin_intermittent (Num 1) (Num 10) (Num 75)
      (Num 0) None None None = Inr r"
    by blast
  with t have "status r = ''Insuficiente''"
    and "suggestion r = [Lit ''Aumentar dose para '', Val (Num 38),
           Lit '' mg ou reduzir intervalo para '', Val (Num 8), Lit '' h'']"
    by (simp_all add: auc_1 ev)
  with r show "\<exists>r. simulatePK64 fexp Vancomycin_intermittent (Num 1) (Num 10) (Num 75)
      (Num 0) None None None = Inr r
        \<and> status r = ''Insuficiente''
        \<and> suggestion r = [Lit ''Aumentar dose para '', Val (Num 38),
                          Lit '' mg ou reduzir intervalo para '', Val (Num 8), Lit '' h'']"
    by blast
qed

text \<open>
  C4. In the binary64 reading, for continuous vancomycin the block that evaluates the
  dosing applies the first-match table of the specification: insufficient when the AUC is
  below 400, excessive when it is above 600, outside the steady range when \<open>Cmax\<close> is
  below 20 or above 25, adequate otherwise, with the suggested doses computed in doubles
  and then rounded to the nearest integer; \<open>Vd\<close> and \<open>Ke\<close> are those of the
  specification.
\<close>

theorem continuous_evaluation64:
  "evaluate_dosing64 Vancomycin_continuous v dose interval weight
     = Inr (spec_status_continuous64 (Cmax_v v) (auc_v v),
            spec_suggestion_continuous64 dose weight (Vd v) (Ke v) (Cmax_v v) (auc_v v))
   \<and> Vd (pk_switch64 fexp Vancomycin_continuous dose interval weight clearance) = lit64 0.7
   \<and> Ke (pk_switch64 fexp Vancomycin_continuous dose interval weight clearance)
       = spec_Ke64 Vancomycin_continuous clearance weight
   \<and> (\<exists>n. Math_round (Num x) = Num (of_int n) \<and> \<bar>of_int n - x\<bar> \<le> 1 / 2)"
  using evaluate_dosing64_continuous [of v dose interval weight]
    pk_switch64_continuous(1,2) [of fexp dose interval weight clearance]
    Math_round_nearest [of x]
  by blast

text \<open>At weight 74 and clearance 3000 a daily dose of 133 gives the AUC 399.99999999999994
  and is insufficient; at weight 70 and clearance 70 the doses 2000, 98 and 110 are
  excessive, outside the steady range and adequate.\<close>

theorem continuous_evaluation64_witness:
  "\<forall>fexp.
     evaluate_dosing64 Vancomycin_continuous
       (pk_switch64 fexp Vancomycin_continuous (Num 133) (Num 24) (Num 74) (Num 3000))
       (Num 133) (Num 24) (Num 74)
       = Inr (''Insuficiente'',
              [Lit (''Aumentar dose di'' @ [CHR 0xC3, CHR 0xA1] @ ''ria para ''), Val (Num 133),
               Lit '' mg/dia''])
   \<and> evaluate_dosing64 Vancomycin_continuous
       (pk_switch64 fexp Vancomycin_continuous (Num 2000) (Num 24) (Num 70) (Num 70))
       (Num 2000) (Num 24) (Num 70)
       = Inr (''Excessiva'',
              [Lit (''Reduzir dose di'' @ [CHR 0xC3, CHR 0xA1] @ ''ria para ''), Val (Num 131),
               Lit '' mg/dia''])
   \<and> evaluate_dosing64 Vancomycin_continuous
       (pk_switch64 fexp Vancomycin_continuous (Num 98) (Num 24) (Num 70) (Num 70))
       (Num 98) (Num 24) (Num 70)
       = Inr (''Fora da faixa est'' @ [CHR 0xC3, CHR 0xA1] @ ''vel'',
              [Lit ''Ajustar dose para '', Val (Num 105),
               Lit ('' mg/dia para atingir 20'' @ [CHR 0xE2, CHR 0x80, CHR 0x93] @ ''25 ''
                    @ [CHR 0xC2, CHR 0xB5] @ ''g/mL'')])
   \<and> evaluate_dosing64 Vancomycin_continuous
       (pk_switch64 fexp Vancomycin_continuous (Num 110) (Num 24) (Num 70) (Num 70))
       (Num 110) (Num 24) (Num 70)
       = Inr (''Adequada'', [])"
proof
  fix fexp
  note ev = spec_status_continuous64_def spec_suggestion_continuous64_def spec_Ke64_def
    pk_switch64_continuous_eval Let_def
    add64_def sub64_def mul64_def div64_def lit64_def round64_facts
  show "evaluate_dosing64 Vancomycin_continuous
       (pk_switch64 fexp Vancomycin_continuous (Num 133) (Num 24) (Num 74) (Num 3000))
       (Num 133) (Num 24) (Num 74)
       = Inr (''Insuficiente'',
              [Lit (''Aumentar dose di'' @ [CHR 0xC3, CHR 0xA1] @ ''ria para ''), Val (Num 133),
               Lit '' mg/dia''])
   \<and> evaluate_dosing64 Vancomycin_continuous
       (pk_switch64 fexp Vancomycin_continuous (Num 2000) (Num 24) (Num 70) (Num 70))
       (Num 2000) (Num 24) (Num 70)
       = Inr (''Excessiva'',
              [Lit (''Reduzir dose di'' @ [CHR 0xC3, CHR 0xA1] @ ''ria para ''), Val (Num 131),
               Lit '' mg/dia''])
   \<and> evaluate_dosing64 Vancomycin_continuous
       (pk_switch64 fexp Vancomycin_continuous (Num 98) (Num 24) (Num 70) (Num 70))
       (Num 98) (Num 24) (Num 70)
       = Inr (''Fora da faixa est'' @ [CHR 0xC3, CHR 0xA1] @ ''vel'',
              [Lit ''Ajustar dose para '', Val (Num 105),
               Lit ('' mg/dia para atingir 20'' @ [CHR 0xE2, CHR 0x80, CHR 0x93] @ ''25 ''
                    @ [CHR 0xC2, CHR 0xB5] @ ''g/mL'')])
   \<and> evaluate_dosing64 Vancomycin_continuous
       (pk_switch64 fexp Vancomycin_continuous (Num 110) (Num 24) (Num 70) (Num 70))
       (Num 110) (Num 24) (Num 70)
       = Inr (''Adequada'', [])"
    using
      continuous_evaluation64 [of "pk_switch64 fexp Vancomycin_continuous (Num 133) (Num 24) (Num 74) (Num 3000)"
        "Num 133" "Num 24" "Num 74" fexp "Num 3000" 0]
      continuous_evaluation64 [of "pk_switch64 fexp Vancomycin_continuous (Num 2000) (Num 24) (Num 70) (Num 70)"
        "Num 2000" "Num 24" "Num 70" fexp "Num 70" 0]
      continuous_evaluation64 [of "pk_switch64 fexp Vancomycin_continuous (Num 98) (Num 24) (Num 70) (Num 70)"
        "Num 98" "Num 24" "Num 70" fexp "Num 70" 0]
      continuous_evaluation64 [of "pk_switch64 fexp Vancomycin_continuous (Num 110) (Num 24) (Num 70) (Num 70)"
        "Num 110" "Num 24" "Num 70" fexp "Num 70" 0]
    by (simp add: ev)
qed

text \<open>
  C5, as amended. In the binary64 reading, for positive weight and creatinine
  \<^verbatim>\<open>calculateClearance\<close> returns the estimate of the specification: the Schwartz branch
  exactly when the age in days, as computed, is at most 28, or the unit is months, or the
  unit is years and the age is below 18, with the coefficient chosen by age band and the
  height estimated from the age; the Cockcroft-Gault branch otherwise; clamped at 0. An
  age of 18 years, and an age of 29 days given in days, take the adult branch; 28 days
  take the pediatric branch with 0.45. An age given in years that is below 18 and comes to
  more than 28 days takes the pediatric branch with 0.413.
\<close>

theorem calculateClearance64_branches:
  assumes "Num 0 < weight" "Num 0 < creatinine"
  shows "calculateClearance64 weight ageValue u creatinine
           = Inr (spec_clearance64 weight ageValue u creatinine)
    \<and> \<not> spec_clearance64 weight ageValue u creatinine < Num 0
    \<and> calculateClearance64 weight (Num 18) Years creatinine
           = Inr (Math_max (Num 0)
                    (div64 (mul64 (sub64 (Num 140) (Num 18)) weight) (mul64 (Num 72) creatinine)))
    \<and> calculateClearance64 weight (Num 29) Days creatinine
           = Inr (Math_max (Num 0)
                    (div64 (mul64 (sub64 (Num 140) (div64 (Num 29) (lit64 365.25))) weight)
                       (mul64 (Num 72) creatinine)))
    \<and> calculateClearance64 weight (Num 28) Days creatinine
           = Inr (Math_max (Num 0)
                    (div64 (mul64 (lit64 0.45) (add64 (Num 50) (mul64 (Num 28) (lit64 0.1))))
                       creatinine))
    \<and> (ageValue < Num 18 \<and> Num 28 < mul64 ageValue (lit64 365.25) \<longrightarrow>
         calculateClearance64 weight ageValue Years creatinine
           = Inr (Math_max (Num 0)
                    (div64 (mul64 (lit64 0.413) (add64 (Num 50) (mul64 ageValue (Num 12))))
                       creatinine)))"
proof -
  note g = positive_not_le [OF assms(1)] positive_not_le [OF assms(2)]
  have 1: "calculateClearance64 weight ageValue u creatinine
           = Inr (spec_clearance64 weight ageValue u creatinine)"
    by (rule calculateClearance64_spec [OF assms])
  have 2: "calculateClearance64 weight (Num 18) Years creatinine
           = Inr (Math_max (Num 0)
                    (div64 (mul64 (sub64 (Num 140) (Num 18)) weight) (mul64 (Num 72) creatinine)))"
    using g by (simp add: calculateClearance64_def Let_def mul64_def lit64_def round64_facts)
  have 3: "calculateClearance64 weight (Num 29) Days creatinine
           = Inr (Math_max (Num 0)
                    (div64 (mul64 (sub64 (Num 140) (div64 (Num 29) (lit64 365.25))) weight)
                       (mul64 (Num 72) creatinine)))"
    using g by (simp add: calculateClearance64_def Let_def)
  have 4: "calculateClearance64 weight (Num 28) Days creatinine
           = Inr (Math_max (Num 0)
                    (div64 (mul64 (lit64 0.45) (add64 (Num 50) (mul64 (Num 28) (lit64 0.1))))
                       creatinine))"
    using g by (simp add: calculateClearance64_def Let_def)
  have 5: "calculateClearance64 weight ageValue Years creatinine
           = Inr (Math_max (Num 0)
                    (div64 (mul64 (lit64 0.413) (add64 (Num 50) (mul64 ageValue (Num 12))))
                       creatinine))"
    if "ageValue < Num 18" "Num 28 < mul64 ageValue (lit64 365.25)"
  proof -
    have "\<not> mul64 ageValue (lit64 365.25) \<le> Num 28"
      using that(2) by (cases "mul64 ageValue (lit64 365.25)") simp_all
    moreover have "\<not> mul64 ageValue (lit64 365.25) \<le> Num 7"
      using that(2) by (cases "mul64 ageValue (lit64 365.25)") simp_all
    ultimately show ?thesis
      using g that(1) by (simp add: calculateClearance64_def Let_def)
  qed
  have 6: "\<not> spec_clearance64 weight ageValue u creatinine < Num 0"
    unfolding spec_clearance64_def by (rule Math_max_not_below)
  from 1 2 3 4 5 6 show ?thesis by blast
qed

text \<open>An age of 0.9204470742932281 months comes to exactly 28 days in doubles, and the
  estimate at weight 10 and creatinine 1 is 22.914201183431953, with the coefficient
  0.45.\<close>

theorem calculateClearance64_branches_witness:
  "Num 0 < Num 10 \<and> Num 0 < Num 1 \<and> Num 0 < Num 70 \<and> Num 0 < Num 3 \<and> Num 0 < lit64 0.5
   \<and> mul64 (lit64 0.9204470742932281) (lit64 30.42) = Num 28
   \<and> calculateClearance64 (Num 10) (lit64 0.9204470742932281) Months (Num 1)
       = Inr (Num (6449774244449795 / 2 ^ 48))
   \<and> calculateClearance64 (Num 70) (Num 40) Years (Num 1) = Inr (Num (1710351420984889 / 2 ^ 44))
   \<and> calculateClearance64 (Num 70) (Num 18) Years (Num 1) = Inr (Num (4173257467203129 / 2 ^ 45))
   \<and> calculateClearance64 (Num 3) (Num 29) Days (lit64 0.5) = Inr (Num (6564024713563671 / 2 ^ 49))
   \<and> calculateClearance64 (Num 3) (Num 28) Days (lit64 0.5) = Inr (Num (3343922723322593 / 2 ^ 46))
   \<and> lit64 0.08 < Num 18 \<and> Num 28 < mul64 (lit64 0.08) (lit64 365.25)
   \<and> calculateClearance64 (Num 3) (lit64 0.08) Years (lit64 0.5) = Inr (Num (5924057467841287 / 2 ^ 47))"
proof -
  note ev = spec_clearance64_def spec_pediatric64_def spec_k64_def spec_height64_def
    spec_ageYears64_def spec_ageInDays64_def add64_def sub64_def mul64_def div64_def lit64_def
    round64_facts
  have p: "Num 0 < Num 10" "Num 0 < Num 1" "Num 0 < Num 70" "Num 0 < Num 3" "Num 0 < lit64 0.5"
    "lit64 0.08 < Num 18" "Num 28 < mul64 (lit64 0.08) (lit64 365.25)"
    by (simp_all add: ev)
  have m: "mul64 (lit64 0.9204470742932281) (lit64 30.42) = Num 28"
    by (simp add: ev)
  have a: "calculateClearance64 (Num 10) (lit64 0.9204470742932281) Months (Num 1)
       = Inr (Num (6449774244449795 / 2 ^ 48))"
    using calculateClearance64_branches [OF p(1) p(2), of "lit64 0.9204470742932281" Months] by (simp add: ev)
  have b: "calculateClearance64 (Num 70) (Num 40) Years (Num 1) = Inr (Num (1710351420984889 / 2 ^ 44))"
    using calculateClearance64_branches [OF p(3) p(2), of "Num 40" Years] by (simp add: ev)
  have c: "calculateClearance64 (Num 70) (Num 18) Years (Num 1) = Inr (Num (4173257467203129 / 2 ^ 45))"
    using calculateClearance64_branches [OF p(3) p(2), of "Num 18" Years] by (simp add: ev)
  have d: "calculateClearance64 (Num 3) (Num 29) Days (lit64 0.5) = Inr (Num (6564024713563671 / 2 ^ 49))"
    "calculateClearance64 (Num 3) (Num 28) Days (lit64 0.5) = Inr (Num (3343922723322593 / 2 ^ 46))"
    using calculateClearance64_branches [OF p(4) p(5), of "Num 29" Days] by (simp_all add: ev)
  have e: "calculateClearance64 (Num 3) (lit64 0.08) Years (lit64 0.5) = Inr (Num (5924057467841287 / 2 ^ 47))"
    using calculateClearance64_branches [OF p(4) p(5), of "lit64 0.08" Years] p(6) p(7) by (simp add: ev)
  from p m a b c d e show ?thesis by blast
qed

text \<open>
  C5 as stated fails: an age of 29 days given in years (\<open>29 / 365.25\<close> years) does not
  take the adult branch.
\<close>

theorem calculateClearance_29_days_in_years:
  "calculateClearance 3 (29 / 365.25) Years (1 / 2)
     \<noteq> Inr (max 0 ((140 - 29 / 365.25) * 3 / (72 * (1 / 2))))"
  by (simp add: calculateClearance_def Let_def)

text \<open>
  C6, as amended. \<^verbatim>\<open>calculateClearance\<close> fails exactly when the weight or the creatinine is
  not positive, and \<^verbatim>\<open>simulatePK\<close> throws an \<^verbatim>\<open>Error\<close> exactly when the dose or the
  interval is not positive, whatever the other arguments are. Each function has one fixed
  message, which names both quantities of its guard and is the same whichever of the two
  is at fault.
\<close>

theorem invalid_input_errors:
  "((\<exists>e. calculateClearance w a u c = Inl e) = (w \<le> 0 \<or> c \<le> 0))
   \<and> ((calculateClearance w a u c
         = Inl (Error ''Peso e creatinina devem ser maiores que 0.'')) = (w \<le> 0 \<or> c \<le> 0))
   \<and> ((\<exists>m. simulatePK ab d i w c' l lt rt = Inl (Error m)) = (d \<le> 0 \<or> i \<le> 0))
   \<and> ((simulatePK ab d i w c' l lt rt
         = Inl (Error ''Dose e intervalo devem ser maiores que 0.'')) = (d \<le> 0 \<or> i \<le> 0))"
proof -
  have 1: "(\<exists>e. calculateClearance w a u c = Inl e) = (w \<le> 0 \<or> c \<le> 0)"
    by (auto simp: calculateClearance_def Let_def)
  have 2: "(calculateClearance w a u c
      = Inl (Error ''Peso e creatinina devem ser maiores que 0.'')) = (w \<le> 0 \<or> c \<le> 0)"
    by (auto simp: calculateClearance_def Let_def msg_clearance_def)
  have 3: "(\<exists>m. simulatePK ab d i w c' l lt rt = Inl (Error m)) = (d \<le> 0 \<or> i \<le> 0)"
    using simulatePK_guard [of d i ab w c' l lt rt] simulatePK_no_guard [of d i ab w c' l lt rt]
    by blast
  have 4: "(simulatePK ab d i w c' l lt rt
      = Inl (Error ''Dose e intervalo devem ser maiores que 0.'')) = (d \<le> 0 \<or> i \<le> 0)"
    using simulatePK_guard [of d i ab w c' l lt rt] simulatePK_no_guard [of d i ab w c' l lt rt]
    unfolding msg_dose_def by blast
  from 1 2 3 4 show ?thesis by blast
qed

theorem invalid_input_errors_witness:
  "calculateClearance 0 40 Years 1 = Inl (Error ''Peso e creatinina devem ser maiores que 0.'')
   \<and> calculateClearance 70 40 Years (- 1)
       = Inl (Error ''Peso e creatinina devem ser maiores que 0.'')
   \<and> simulatePK Gentamicin 0 8 0 0 None None None
       = Inl (Error ''Dose e intervalo devem ser maiores que 0.'')
   \<and> simulatePK Gentamicin 420 (- 8) 70 97 None None None
       = Inl (Error ''Dose e intervalo devem ser maiores que 0.'')
   \<and> (\<forall>m. simulatePK Gentamicin 420 8 70 97 None None None \<noteq> Inl (Error m))"
  using invalid_input_errors [of 0 40 Years 1 Gentamicin 0 8 0 None None None]
    invalid_input_errors [of 70 40 Years "- 1" Gentamicin 420 "- 8" 97 None None None]
    invalid_input_errors [of 70 40 Years 1 Gentamicin 420 8 97 None None None]
  by simp

text \<open>
  C6 as stated fails: the message does not tell which precondition failed. A weight that
  is not positive and a creatinine that is not positive give the same error, and so do a
  dose and an interval that are not positive.
\<close>

theorem same_message_for_either_offender:
  "calculateClearance 0 40 Years 1 = calculateClearance 70 40 Years 0
   \<and> calculateClearance 0 40 Years 1
       = Inl (Error ''Peso e creatinina devem ser maiores que 0.'')
   \<and> simulatePK Gentamicin 0 8 70 97 None None None
       = simulatePK Gentamicin 420 0 70 97 None None None
   \<and> simulatePK Gentamicin 0 8 70 97 None None None
       = Inl (Error ''Dose e intervalo devem ser maiores que 0.'')"
  by (simp add: calculateClearance_def simulatePK_def msg_clearance_def msg_dose_def)

text \<open>
  C7, as amended. \<^verbatim>\<open>simulatePK\<close> returns a result for every drug other than continuous
  vancomycin. In a returned result the curve has \<open>\<lceil>interval * 2\<rceil>\<close> samples, at the
  times \<open>0, 0.5, 1, \<dots>\<close> in ascending order, each concentration standing at the place
  of its time; the measured point, if any, is the last entry of both arrays, whatever its
  time, and without a measured level the whole sequence of times is ascending.
\<close>

theorem curve_samples:
  assumes "0 < dose" "0 < interval"
  shows "(ab \<noteq> Vancomycin_continuous \<longrightarrow>
            (\<exists>r. simulatePK ab dose interval weight c l lt rt = Inr r))
    \<and> (\<forall>r. simulatePK ab dose interval weight c l lt rt = Inr r \<longrightarrow>
          timePoints r = map (\<lambda>k. Num (real k / 2)) [0 ..< nat \<lceil>interval * 2\<rceil>]
                         @ map fst (overlay (pk_switch ab dose interval weight c) interval l lt rt)
        \<and> concentrations r =
            map (curve_point (pk_switch ab dose interval weight c) dose weight)
              (map (\<lambda>k. Num (real k / 2)) [0 ..< nat \<lceil>interval * 2\<rceil>])
            @ map snd (overlay (pk_switch ab dose interval weight c) interval l lt rt)
        \<and> length (concentrations r) = length (timePoints r)
        \<and> (l = None \<longrightarrow> sorted_wrt (<) (timePoints r)))
    \<and> sorted_wrt (<) (map (\<lambda>k. Num (real k / 2)) [0 ..< nat \<lceil>interval * 2\<rceil>])
    \<and> length (overlay (pk_switch ab dose interval weight c) interval l lt rt) \<le> 1"
proof -
  have 1: "ab \<noteq> Vancomycin_continuous \<longrightarrow>
            (\<exists>r. simulatePK ab dose interval weight c l lt rt = Inr r)"
    using simulatePK_returns [OF assms] by blast
  have 2: "timePoints r = map (\<lambda>k. Num (real k / 2)) [0 ..< nat \<lceil>interval * 2\<rceil>]
                         @ map fst (overlay (pk_switch ab dose interval weight c) interval l lt rt)
        \<and> concentrations r =
            map (curve_point (pk_switch ab dose interval weight c) dose weight)
              (map (\<lambda>k. Num (real k / 2)) [0 ..< nat \<lceil>interval * 2\<rceil>])
            @ map snd (overlay (pk_switch ab dose interval weight c) interval l lt rt)
        \<and> length (concentrations r) = length (timePoints r)
        \<and> (l = None \<longrightarrow> sorted_wrt (<) (timePoints r))"
    if r: "simulatePK ab dose interval weight c l lt rt = Inr r" for r
  proof -
    note a = simulatePK_Inr_arrays [OF r, unfolded curve_times_eq]
    have "length (concentrations r) = length (timePoints r)"
      using a by simp
    moreover have "l = None \<longrightarrow> sorted_wrt (<) (timePoints r)"
      using a samples_ascending [of "nat \<lceil>interval * 2\<rceil>"] by auto
    ultimately show ?thesis using a by blast
  qed
  from 1 2 samples_ascending [of "nat \<lceil>interval * 2\<rceil>"]
    overlay_length [of "pk_switch ab dose interval weight c" interval l lt rt]
  show ?thesis by blast
qed

theorem curve_samples_witness:
  "(0::real) < 100 \<and> (0::real) < 2
   \<and> (\<exists>r. simulatePK Gentamicin 100 2 10 50 None None None = Inr r
        \<and> timePoints r = [Num 0, Num (1 / 2), Num 1, Num (3 / 2)]
        \<and> length (concentrations r) = 4
        \<and> sorted_wrt (<) (timePoints r))"
  using curve_samples [of 100 2 Gentamicin 10 50 None None None]
  by (auto simp: upt_4)

text \<open>
  C7 as stated fails: with a peak level the measured point has time 0.5 and comes after
  the sample at 1.5.
\<close>

theorem overlay_breaks_ascending:
  "map_sum id timePoints (simulatePK Gentamicin 100 2 10 50 (Some 7) (Some Peak) None)
     = Inr [Num 0, Num (1 / 2), Num 1, Num (3 / 2), Num (1 / 2)]
   \<and> \<not> sorted_wrt (<) [Num 0, Num (1 / 2), Num 1, Num (3 / 2), Num (1 / 2)]
   \<and> \<not> sorted_wrt (\<le>) [Num 0, Num (1 / 2), Num 1, Num (3 / 2), Num (1 / 2)]"
proof -
  obtain r where r: "simulatePK Gentamicin 100 2 10 50 (Some 7) (Some Peak) None = Inr r"
    using simulatePK_returns [of 100 2 Gentamicin 10 50 "Some 7" "Some Peak" None] by auto
  have o: "overlay (pk_switch Gentamicin 100 2 10 50) 2 (Some 7) (Some Peak) None
      = [(Num (1 / 2), Num 7)]"
    by (simp add: overlay_def measuredTime_def infusionTime_pk_switch spec_infusionTime_def)
  have "timePoints r = [Num 0, Num (1 / 2), Num 1, Num (3 / 2), Num (1 / 2)]"
    using simulatePK_Inr_arrays [OF r] by (simp add: o curve_times_eq upt_4)
  then show ?thesis by (simp add: r)
qed

text \<open>
  C8. With a measured level other than zero and a level type, the outcome of
  \<^verbatim>\<open>simulatePK\<close> is the outcome of the call without a level, with exactly one point
  appended to a returned result: at the infusion time for a peak, at \<open>interval - 0.1\<close>
  for a trough, at \<^verbatim>\<open>randomTime\<close> for a random level whose time is not negative. For a
  random level whose time is missing or negative the outcome is that of the call without
  a level. Nothing else in the result changes.
\<close>

theorem measured_level_overlay:
  assumes "level \<noteq> 0"
  shows "simulatePK ab d i w c (Some level) (Some Peak) rt
           = map_sum id (append_point (Num (spec_infusionTime ab)) (Num level))
               (simulatePK ab d i w c None None None)
    \<and> simulatePK ab d i w c (Some level) (Some Trough) rt
           = map_sum id (append_point (Num (i - 0.1)) (Num level))
               (simulatePK ab d i w c None None None)
    \<and> (0 \<le> t \<longrightarrow> simulatePK ab d i w c (Some level) (Some Random) (Some t)
           = map_sum id (append_point (Num t) (Num level))
               (simulatePK ab d i w c None None None))
    \<and> (t < 0 \<longrightarrow> simulatePK ab d i w c (Some level) (Some Random) (Some t)
           = simulatePK ab d i w c None None None)
    \<and> simulatePK ab d i w c (Some level) (Some Random) None
           = simulatePK ab d i w c None None None
    \<and> (0 < d \<and> 0 < i \<and> ab \<noteq> Vancomycin_continuous \<longrightarrow>
         (\<exists>r. simulatePK ab d i w c None None None = Inr r))"
proof -
  have ap: "append_point a b = (\<lambda>r. r\<lparr>timePoints := timePoints r @ [a],
      concentrations := concentrations r @ [b]\<rparr>)" for a b
    by (rule ext) (simp add: append_point_def)
  have 1: "simulatePK ab d i w c (Some level) (Some Peak) rt
           = map_sum id (append_point (Num (spec_infusionTime ab)) (Num level))
               (simulatePK ab d i w c None None None)"
    by (subst simulatePK_overlay)
      (simp add: overlay_cases(1) [OF assms] infusionTime_pk_switch ap)
  have 2: "simulatePK ab d i w c (Some level) (Some Trough) rt
           = map_sum id (append_point (Num (i - 0.1)) (Num level))
               (simulatePK ab d i w c None None None)"
    by (subst simulatePK_overlay) (simp add: overlay_cases(2) [OF assms] ap)
  have 3: "simulatePK ab d i w c (Some level) (Some Random) (Some t)
           = map_sum id (append_point (Num t) (Num level))
               (simulatePK ab d i w c None None None)" if "0 \<le> t"
    by (subst simulatePK_overlay) (simp add: overlay_cases(3) [OF assms that] ap)
  have 4: "simulatePK ab d i w c (Some level) (Some Random) (Some t)
           = simulatePK ab d i w c None None None" if "t < 0"
    by (subst simulatePK_overlay) (simp add: overlay_cases(4) [OF assms that] map_sum_same)
  have 5: "simulatePK ab d i w c (Some level) (Some Random) None
           = simulatePK ab d i w c None None None"
    by (subst simulatePK_overlay) (simp add: overlay_cases(5) [OF assms] map_sum_same)
  have 6: "0 < d \<and> 0 < i \<and> ab \<noteq> Vancomycin_continuous \<longrightarrow>
         (\<exists>r. simulatePK ab d i w c None None None = Inr r)"
    using simulatePK_returns by blast
  from 1 2 3 4 5 6 show ?thesis by blast
qed

theorem measured_level_overlay_witness:
  "(7::real) \<noteq> 0
   \<and> (\<exists>r. simulatePK Gentamicin 100 2 10 50 None None None = Inr r
        \<and> simulatePK Gentamicin 100 2 10 50 (Some 7) (Some Peak) None
            = Inr (append_point (Num (1 / 2)) (Num 7) r)
        \<and> simulatePK Gentamicin 100 2 10 50 (Some 7) (Some Trough) None
            = Inr (append_point (Num (19 / 10)) (Num 7) r)
        \<and> simulatePK Gentamicin 100 2 10 50 (Some 7) (Some Random) (Some 1)
            = Inr (append_point (Num 1) (Num 7) r)
        \<and> simulatePK Gentamicin 100 2 10 50 (Some 7) (Some Random) (Some (- 1)) = Inr r
        \<and> simulatePK Gentamicin 100 2 10 50 (Some 7) (Some Random) None = Inr r)"
  using measured_level_overlay [of 7 Gentamicin 100 2 10 50 None 1]
    measured_level_overlay [of 7 Gentamicin 100 2 10 50 None "- 1"]
  by (auto simp: spec_infusionTime_def)

text \<open>
  C9, as amended. In the binary64 reading, every result \<^verbatim>\<open>simulatePK\<close> returns is for a
  drug other than continuous vancomycin, and its half-life is the text, to two decimal
  places, of the double \<open>0.693 / Ke\<close>, with \<open>Ke\<close> as the specification gives it for
  the drug; the text of a number below \<open>10^21\<close> is the hundredths nearest to it. A
  result is returned whenever dose and interval are positive and the curve has at most
  \<open>2^32 - 1\<close> samples.
\<close>

theorem half_life_text64:
  "(\<forall>r. simulatePK64 fexp ab dose interval weight clearance l lt rt = Inr r \<longrightarrow>
        ab \<noteq> Vancomycin_continuous
      \<and> t1_2_v (pk_switch64 fexp ab dose interval weight clearance)
          = Some (div64 (lit64 0.693) (spec_Ke64 ab clearance weight))
      \<and> t1_2 r = toFixed2 (div64 (lit64 0.693) (spec_Ke64 ab clearance weight)))
   \<and> (Num 0 < dose \<and> Num 0 < interval \<and> Math_ceil (mul64 interval (Num 2)) \<le> Num 4294967295
        \<and> ab \<noteq> Vancomycin_continuous \<longrightarrow>
        (\<exists>r. simulatePK64 fexp ab dose interval weight clearance l lt rt = Inr r))
   \<and> (\<bar>x\<bar> < 10 ^ 21 \<longrightarrow>
        (\<exists>n. toFixed2 (Num x) = Decimal2 (x < 0) n \<and> \<bar>real n / 100 - \<bar>x\<bar>\<bar> \<le> 1 / 200))"
proof -
  have 1: "ab \<noteq> Vancomycin_continuous
      \<and> t1_2_v (pk_switch64 fexp ab dose interval weight clearance)
          = Some (div64 (lit64 0.693) (spec_Ke64 ab clearance weight))
      \<and> t1_2 r = toFixed2 (div64 (lit64 0.693) (spec_Ke64 ab clearance weight))"
    if r: "simulatePK64 fexp ab dose interval weight clearance l lt rt = Inr r" for r
  proof -
    have n: "ab \<noteq> Vancomycin_continuous"
      using r simulatePK64_continuous by blast
    from simulatePK64_Inr(4) [OF r] pk_switch64_half_life [OF n, of fexp dose interval weight clearance]
    show ?thesis using n by auto
  qed
  have 2: "Num 0 < dose \<and> Num 0 < interval \<and> Math_ceil (mul64 interval (Num 2)) \<le> Num 4294967295
        \<and> ab \<noteq> Vancomycin_continuous \<longrightarrow>
        (\<exists>r. simulatePK64 fexp ab dose interval weight clearance l lt rt = Inr r)"
    using simulatePK64_returns by blast
  from 1 2 toFixed2_nearest [of x] show ?thesis by blast
qed

text \<open>At amikacin, dose 100, interval 8, weight 29 and clearance 200 the half-life is the
  double 61.87499999999999, and its text is 61.87.\<close>

theorem half_life_text64_witness:
  "(\<forall>fexp. \<exists>r. simulatePK64 fexp Amikacin (Num 100) (Num 8) (Num 29) (Num 200) None None None = Inr r
     \<and> t1_2 r = Decimal2 False 6187)
   \<and> div64 (lit64 0.693) (spec_Ke64 Amikacin (Num 200) (Num 29)) = Num (8708132091985919 / 2 ^ 47)
   \<and> 61.87499999999998 < (8708132091985919 / 2 ^ 47 :: real) \<and> (8708132091985919 / 2 ^ 47 :: real) < 61.875"
proof (intro conjI allI)
  show "div64 (lit64 0.693) (spec_Ke64 Amikacin (Num 200) (Num 29)) = Num (8708132091985919 / 2 ^ 47)"
    by (simp add: spec_Ke64_def Let_def add64_def sub64_def mul64_def div64_def lit64_def
        round64_facts)
  show "61.87499999999998 < (8708132091985919 / 2 ^ 47 :: real)" by simp
  show "(8708132091985919 / 2 ^ 47 :: real) < 61.875" by simp
next
  fix fexp
  note ev = spec_Ke64_def Let_def add64_def sub64_def mul64_def div64_def lit64_def round64_facts
  note t = half_life_text64 [of fexp Amikacin "Num 100" "Num 8" "Num 29" "Num 200" None None None 0]
  have "Num 0 < Num 100 \<and> Num 0 < Num 8 \<and> Math_ceil (mul64 (Num 8) (Num 2)) \<le> Num 4294967295
      \<and> Amikacin \<noteq> Vancomycin_continuous"
    by (simp add: ev)
  with t obtain r where r: "simulatePK64 fexp Amikacin (Num 100) (Num 8) (Num 29) (Num 200)
      None None None = Inr r"
    by blast
  with t have "t1_2 r = Decimal2 False 6187"
    by (simp add: ev)
  with r show "\<exists>r. simulatePK64 fexp Amikacin (Num 100) (Num 8) (Num 29) (Num 200)
      None None None = Inr r \<and> t1_2 r = Decimal2 False 6187"
    by blast
qed

text \<open>
  C9 as stated fails: the text of \<open>ln 2 / Ke\<close> to two decimal places is another one.
\<close>

theorem half_life_not_ln2:
  "map_sum id t1_2 (simulatePK Vancomycin_intermittent 1000 12 70 70 None None None)
     \<noteq> Inr (toFixed2 (Num (ln 2 / spec_Ke Vancomycin_intermittent 70 70)))"
proof -
  have k: "spec_Ke Vancomycin_intermittent 70 70 = 44498 / 10000000"
    by (simp add: spec_Ke_def spec_crCl_def)
  have l: "6931 / 10000 < ln (2::real)" by (rule ln_2_lower)
  have u: "ln (2::real) < 1" by (rule ln_2_less_1)
  have "real_of_int 15575 \<le> ln 2 / (44498 / 10000000) * 100 + 1 / 2"
    using l by simp
  then have f: "15575 \<le> \<lfloor>ln 2 / (44498 / 10000000) * 100 + 1 / 2 :: real\<rfloor>"
    by (simp only: le_floor_iff)
  have s: "0 \<le> ln 2 / (44498 / 10000000 :: real)" "ln 2 / (44498 / 10000000 :: real) < 10 ^ 21"
    using l u by simp_all
  have r: "toFixed2 (Num (ln 2 / (44498 / 10000000)))
      = Decimal2 False (nat \<lfloor>ln 2 / (44498 / 10000000) * 100 + 1 / 2 :: real\<rfloor>)"
    by (rule toFixed2_small(1) [OF s])
  have "simulatePK Vancomycin_intermittent 1000 12 70 70 None None None
     = Inr \<lparr>timePoints = curve_times 12
           @ map fst (overlay (pk_switch Vancomycin_intermittent 1000 12 70 70) 12 None None None),
         concentrations =
           map (curve_point (pk_switch Vancomycin_intermittent 1000 12 70 70) 1000 70)
             (curve_times 12)
           @ map snd (overlay (pk_switch Vancomycin_intermittent 1000 12 70 70) 12 None None None),
         Cmax = toFixed2 (Num (spec_Cmax Vancomycin_intermittent 1000 12 70 70)),
         Cmin = toFixed2 (Num (spec_Cmin Vancomycin_intermittent 1000 12 70 70)),
         auc = toFixed2 (Num (spec_auc Vancomycin_intermittent 1000 12 70 70)),
         t1_2 = toFixed2 (Num (0.693 / spec_Ke Vancomycin_intermittent 70 70)),
         status = spec_status Vancomycin_intermittent
                    (spec_Cmax Vancomycin_intermittent 1000 12 70 70)
                    (spec_Cmin Vancomycin_intermittent 1000 12 70 70)
                    (spec_auc Vancomycin_intermittent 1000 12 70 70),
         suggestion = spec_suggestion Vancomycin_intermittent 1000 12
                    (spec_Cmax Vancomycin_intermittent 1000 12 70 70)
                    (spec_Cmin Vancomycin_intermittent 1000 12 70 70)
                    (spec_auc Vancomycin_intermittent 1000 12 70 70)\<rparr>"
    by (rule simulatePK_valid) simp_all
  then have lhs: "map_sum id t1_2 (simulatePK Vancomycin_intermittent 1000 12 70 70 None None None)
     = Inr (Decimal2 False 15574)"
    by (simp add: k)
  define N where "N = nat \<lfloor>ln 2 / (44498 / 10000000) * 100 + 1 / 2 :: real\<rfloor>"
  have n: "N \<noteq> 15574" unfolding N_def using f by linarith
  have rhs: "toFixed2 (Num (ln 2 / spec_Ke Vancomycin_intermittent 70 70)) = Decimal2 False N"
    unfolding N_def k by (rule r)
  show ?thesis unfolding lhs rhs using n by simp
qed

text \<open>
  C10. The block that evaluates the dosing always sets the status to one of four distinct
  texts, none of them empty, and the suggestion is not empty exactly when the status is
  not \<^verbatim>\<open>Adequada\<close>; so it is in every result \<^verbatim>\<open>simulatePK\<close> returns.
\<close>

theorem status_and_suggestion:
  "(\<exists>st sg. evaluate_dosing ab v dose interval weight = Inr (st, sg)
      \<and> st \<in> {Insuficiente, Excessiva, Adequada, Fora_da_faixa} \<and> st \<noteq> []
      \<and> (render fmt sg \<noteq> []) = (st \<noteq> Adequada))
   \<and> (\<forall>r. simulatePK ab dose interval weight c l lt rt = Inr r \<longrightarrow>
         status r \<in> {Insuficiente, Excessiva, Adequada, Fora_da_faixa} \<and> status r \<noteq> []
         \<and> (render fmt (suggestion r) \<noteq> []) = (status r \<noteq> Adequada))
   \<and> distinct [Insuficiente, Excessiva, Adequada, Fora_da_faixa]"
proof -
  obtain st sg where e: "evaluate_dosing ab v dose interval weight = Inr (st, sg)"
    using evaluate_dosing_Inr by blast
  have 1: "\<exists>st sg. evaluate_dosing ab v dose interval weight = Inr (st, sg)
      \<and> st \<in> {Insuficiente, Excessiva, Adequada, Fora_da_faixa} \<and> st \<noteq> []
      \<and> (render fmt sg \<noteq> []) = (st \<noteq> Adequada)"
    using e evaluate_dosing_shape [OF e, of fmt] by blast
  have 2: "\<forall>r. simulatePK ab dose interval weight c l lt rt = Inr r \<longrightarrow>
         status r \<in> {Insuficiente, Excessiva, Adequada, Fora_da_faixa} \<and> status r \<noteq> []
         \<and> (render fmt (suggestion r) \<noteq> []) = (status r \<noteq> Adequada)"
    using evaluate_dosing_shape [OF simulatePK_Inr_evaluate, of _ dose interval weight c l lt rt _ fmt]
    by blast
  from 1 2 status_texts_distinct show ?thesis by blast
qed

theorem status_and_suggestion_witness:
  "\<exists>r. simulatePK Vancomycin_intermittent 10 12 70 70 None None None = Inr r
     \<and> status r = ''Insuficiente''
     \<and> render (\<lambda>v. ''0'') (suggestion r) \<noteq> []"
proof -
  obtain r where r: "simulatePK Vancomycin_intermittent 10 12 70 70 None None None = Inr r"
    using simulatePK_returns [of 10 12 Vancomycin_intermittent 70 70 None None None] by auto
  have "evaluate_dosing Vancomycin_intermittent (pk_switch Vancomycin_intermittent 10 12 70 70)
      10 12 70 = Inr (status r, suggestion r)"
    by (rule simulatePK_Inr_evaluate [OF r])
  moreover have "simulatePK Vancomycin_intermittent 10 12 70 70 None None None
      = Inr \<lparr>timePoints = curve_times 12
           @ map fst (overlay (pk_switch Vancomycin_intermittent 10 12 70 70) 12 None None None),
         concentrations =
           map (curve_point (pk_switch Vancomycin_intermittent 10 12 70 70) 10 70)
             (curve_times 12)
           @ map snd (overlay (pk_switch Vancomycin_intermittent 10 12 70 70) 12 None None None),
         Cmax = toFixed2 (Num (spec_Cmax Vancomycin_intermittent 10 12 70 70)),
         Cmin = toFixed2 (Num (spec_Cmin Vancomycin_intermittent 10 12 70 70)),
         auc = toFixed2 (Num (spec_auc Vancomycin_intermittent 10 12 70 70)),
         t1_2 = toFixed2 (Num (0.693 / spec_Ke Vancomycin_intermittent 70 70)),
         status = spec_status Vancomycin_intermittent
                    (spec_Cmax Vancomycin_intermittent 10 12 70 70)
                    (spec_Cmin Vancomycin_intermittent 10 12 70 70)
                    (spec_auc Vancomycin_intermittent 10 12 70 70),
         suggestion = spec_suggestion Vancomycin_intermittent 10 12
                    (spec_Cmax Vancomycin_intermittent 10 12 70 70)
                    (spec_Cmin Vancomycin_intermittent 10 12 70 70)
                    (spec_auc Vancomycin_intermittent 10 12 70 70)\<rparr>"
    by (rule simulatePK_valid) simp_all
  then have s: "status r = ''Insuficiente''"
    using r
    by (simp add: spec_status_def spec_insufficient_def spec_auc_def spec_Ke_def spec_crCl_def
        spec_Vd_def Insuficiente_def)
  then have "status r \<noteq> Adequada" by (simp add: Adequada_def)
  then have "render (\<lambda>v. ''0'') (suggestion r) \<noteq> []"
    using status_and_suggestion [of Vancomycin_intermittent
        "pk_switch Vancomycin_intermittent 10 12 70 70" 10 12 70 "\<lambda>v. ''0''" 70 None None None] r
    by blast
  with r s show ?thesis by blast
qed

end
